theory Spec2Isabelle
  imports Main
begin

section \<open>Strings of the host language\<close>

text \<open>
  A string is a list of 8-bit characters: file names, item names and the generated text
  are taken in the ASCII / Latin-1 range. The helpers below are the string methods the
  sources call (\<^verbatim>\<open>split\<close>, \<^verbatim>\<open>join\<close>, \<^verbatim>\<open>replace\<close>,
  \<^verbatim>\<open>indexOf\<close>, \<^verbatim>\<open>toLowerCase\<close>) at the arguments they are called with.
\<close>

text \<open>\<^verbatim>\<open>s.split(sep)\<close> for a one-character separator: never the empty list.\<close>

fun splitOn :: "char \<Rightarrow> string \<Rightarrow> string list" where
  "splitOn sep [] = [[]]"
| "splitOn sep (c # cs) =
     (if c = sep then [] # splitOn sep cs
      else (case splitOn sep cs of
              w # ws \<Rightarrow> (c # w) # ws
            | [] \<Rightarrow> [[c]]))"

text \<open>\<^verbatim>\<open>xs.join(sep)\<close>.\<close>

fun joinWith :: "string \<Rightarrow> string list \<Rightarrow> string" where
  "joinWith sep [] = []"
| "joinWith sep [x] = x"
| "joinWith sep (x # y # ys) = x @ sep @ joinWith sep (y # ys)"

text \<open>\<^verbatim>\<open>s.replace(/ /g, '%20')\<close>.\<close>

fun replaceSpaces :: "string \<Rightarrow> string" where
  "replaceSpaces [] = []"
| "replaceSpaces (c # cs) =
     (if c = CHR '' '' then ''%20'' @ replaceSpaces cs else c # replaceSpaces cs)"

text \<open>An unanchored literal in a regular expression: the literal occurs somewhere.\<close>

fun containsLit :: "string \<Rightarrow> string \<Rightarrow> bool" where
  "containsLit lit [] = (lit = [])"
| "containsLit lit (c # cs) = (take (length lit) (c # cs) = lit \<or> containsLit lit cs)"

definition endsWith :: "string \<Rightarrow> string \<Rightarrow> bool" where
  "endsWith s suf \<longleftrightarrow> length suf \<le> length s \<and> drop (length s - length suf) s = suf"

text \<open>The characters that \<^verbatim>\<open>.\<close> of a regular expression does not match.\<close>

definition isLineTerminator :: "char \<Rightarrow> bool" where
  "isLineTerminator c \<longleftrightarrow> c = CHR 0x0A \<or> c = CHR 0x0D"

section \<open>The sidebar generator\<close>

subsection \<open>The two patterns\<close>

text \<open>\<^verbatim>\<open>let ignores = /node_modules|^\.|_sidebar|_docsify/;\<close>\<close>

definition ignores :: "string \<Rightarrow> bool" where
  "ignores item \<longleftrightarrow>
     containsLit ''node_modules'' item \<or> take 1 item = ''.'' \<or>
     containsLit ''_sidebar'' item \<or> containsLit ''_docsify'' item"

text \<open>
  \<^verbatim>\<open>let isDoc = /.md$/;\<close> The dot is not escaped: it stands for any one character
  that is no line terminator, followed by \<^verbatim>\<open>md\<close> at the end of the name.
\<close>

definition isDoc :: "string \<Rightarrow> bool" where
  "isDoc item \<longleftrightarrow>
     3 \<le> length item \<and> drop (length item - 2) item = ''md'' \<and>
     \<not> isLineTerminator (item ! (length item - 3))"

subsection \<open>Number parsing\<close>

text \<open>
  \<^verbatim>\<open>Number.isNaN(Number(s))\<close> is a built-in of the language. It is modelled from the
  language standard (StringToNumber): after trimming white space, the empty string, a
  decimal literal with optional sign, fraction and exponent, \<^verbatim>\<open>Infinity\<close> with optional
  sign, and an unsigned hexadecimal, octal or binary literal are numbers; everything else
  is NaN.
\<close>

definition isStrWhiteSpaceChar :: "char \<Rightarrow> bool" where
  "isStrWhiteSpaceChar c \<longleftrightarrow>
     c \<in> {CHR 0x09, CHR 0x0A, CHR 0x0B, CHR 0x0C, CHR 0x0D, CHR 0x20, CHR 0xA0}"

definition trimString :: "string \<Rightarrow> string" where
  "trimString s = rev (dropWhile isStrWhiteSpaceChar (rev (dropWhile isStrWhiteSpaceChar s)))"

definition isDecimalDigit :: "char \<Rightarrow> bool" where
  "isDecimalDigit c \<longleftrightarrow> c \<in> set ''0123456789''"

definition isDecimalDigits :: "string \<Rightarrow> bool" where
  "isDecimalDigits s \<longleftrightarrow> s \<noteq> [] \<and> list_all isDecimalDigit s"

definition isSignedInteger :: "string \<Rightarrow> bool" where
  "isSignedInteger s \<longleftrightarrow>
     (case s of
        c # ds \<Rightarrow> if c = CHR ''+'' \<or> c = CHR ''-'' then isDecimalDigits ds else isDecimalDigits s
      | [] \<Rightarrow> False)"

definition isExponentPartOpt :: "string \<Rightarrow> bool" where
  "isExponentPartOpt s \<longleftrightarrow>
     (case s of
        [] \<Rightarrow> True
      | c # r \<Rightarrow> (c = CHR ''e'' \<or> c = CHR ''E'') \<and> isSignedInteger r)"

definition isStrUnsignedDecimalLiteral :: "string \<Rightarrow> bool" where
  "isStrUnsignedDecimalLiteral s \<longleftrightarrow>
     s = ''Infinity'' \<or>
     (let ip = takeWhile isDecimalDigit s; r = dropWhile isDecimalDigit s
      in case r of
           c # r2 \<Rightarrow>
             if c = CHR ''.''
             then (let fp = takeWhile isDecimalDigit r2; r3 = dropWhile isDecimalDigit r2
                   in (ip \<noteq> [] \<or> fp \<noteq> []) \<and> isExponentPartOpt r3)
             else ip \<noteq> [] \<and> isExponentPartOpt r
         | [] \<Rightarrow> ip \<noteq> [])"

definition isStrDecimalLiteral :: "string \<Rightarrow> bool" where
  "isStrDecimalLiteral s \<longleftrightarrow>
     (case s of
        c # r \<Rightarrow> if c = CHR ''+'' \<or> c = CHR ''-'' then isStrUnsignedDecimalLiteral r
                 else isStrUnsignedDecimalLiteral s
      | [] \<Rightarrow> False)"

definition isNonDecimalIntegerLiteral :: "string \<Rightarrow> bool" where
  "isNonDecimalIntegerLiteral s \<longleftrightarrow>
     (case s of
        z # x # ds \<Rightarrow>
          z = CHR ''0'' \<and> ds \<noteq> [] \<and>
          (if x = CHR ''x'' \<or> x = CHR ''X'' then list_all (\<lambda>d. d \<in> set ''0123456789abcdefABCDEF'') ds
           else if x = CHR ''o'' \<or> x = CHR ''O'' then list_all (\<lambda>d. d \<in> set ''01234567'') ds
           else if x = CHR ''b'' \<or> x = CHR ''B'' then list_all (\<lambda>d. d \<in> set ''01'') ds
           else False)
      | _ \<Rightarrow> False)"

definition numberIsNaN :: "string \<Rightarrow> bool" where
  "numberIsNaN s \<longleftrightarrow>
     (let t = trimString s
      in \<not> (t = [] \<or> isStrDecimalLiteral t \<or> isNonDecimalIntegerLiteral t))"

subsection \<open>Display names\<close>

text \<open>
  \<^verbatim>\<open>
  function niceName(name: string) {
    let splitName = name.split('-');
    if (Number.isNaN(Number(splitName[0]))) return name;
    return splitName.slice(1).join(' ');
  }
  \<close>
\<close>

definition niceName :: "string \<Rightarrow> string" where
  "niceName name' =
     (let splitName = splitOn (CHR ''-'') name'
      in if numberIsNaN (hd splitName) then name'
         else joinWith '' '' (tl splitName))"

text \<open>
  \<^verbatim>\<open>path.basename(p, ext)\<close> of the platform library, modelled from its documentation:
  the last portion of the path, trailing separators ignored, without the extension when
  the portion ends with it and is longer than it; the empty string when the whole path
  is the extension.
\<close>

definition basename :: "string \<Rightarrow> string \<Rightarrow> string" where
  "basename p ext =
     (if ext \<noteq> [] \<and> p = ext then []
      else
        (let trimmed = rev (dropWhile (\<lambda>c. c = CHR ''/'') (rev p));
             base = rev (takeWhile (\<lambda>c. c \<noteq> CHR ''/'') (rev trimmed))
         in if ext \<noteq> [] \<and> length ext < length base \<and> endsWith base ext
            then take (length base - length ext) base
            else base))"

subsection \<open>The tree\<close>

text \<open>
  \<^verbatim>\<open>type Entry = { name: string; path: string; children?: Entry[] }\<close>:
  a leaf has no \<^verbatim>\<open>children\<close> field (\<open>None\<close>), a container has one, possibly empty.
\<close>

datatype Entry = Entry (name: string) (path: string) (children: "Entry list option")

subsection \<open>Rendering, with folding\<close>

text \<open>
  \<^verbatim>\<open>
  function renderToMd(tree: Entry, linkDir = false): string {
    if (!tree.children) {
      return `- [${niceName(path.basename(tree.name, '.md'))}](${tree.path.replace(/ /g, '%20')})`;
    } else {
      let fileNames = new Set(tree.children.filter(c => !c.children).map(c => c.name));
      let dirNames = new Set(tree.children.filter(c => c.children).map(c => c.name + '.md'));
      let content = tree.children
        .filter(c => !fileNames.has(c.name) || !dirNames.has(c.name))
        .map(c => renderToMd(c, dirNames.has(c.name + '.md') && fileNames.has(c.name + '.md')))
        .join('\n').split('\n').map(item => '  ' + item).join('\n');
      let prefix = '';
      if (tree.name) {
        if (linkDir)
          prefix = `- [${niceName(path.basename(tree.name, '.md'))}](${tree.path.replace(/ /g, '%20')})\n`;
        else prefix = `- ${niceName(tree.name)}\n`;
      }
      return prefix + content;
    }
  }
  \<close>
  An array is truthy also when it is empty, so \<^verbatim>\<open>!tree.children\<close> holds for leaves only.
\<close>

definition linkLine :: "Entry \<Rightarrow> string" where
  "linkLine tree =
     ''- ['' @ niceName (basename (name tree) ''.md'') @ '']('' @ replaceSpaces (path tree) @ '')''"

definition indentLines :: "string \<Rightarrow> string" where
  "indentLines text' =
     joinWith ''\<newline>'' (map (\<lambda>item. ''  '' @ item) (splitOn (CHR ''\<newline>'') text'))"

fun renderToMd :: "Entry \<Rightarrow> bool \<Rightarrow> string" where
  "renderToMd (Entry nm pth None) linkDir = linkLine (Entry nm pth None)"
| "renderToMd (Entry nm pth (Some cs)) linkDir =
     (let fileNames = set (map name (filter (\<lambda>c. children c = None) cs));
          dirNames = set (map (\<lambda>c. name c @ ''.md'') (filter (\<lambda>c. children c \<noteq> None) cs));
          content = indentLines (joinWith ''\<newline>''
            (map (\<lambda>c. renderToMd c (name c @ ''.md'' \<in> dirNames \<and> name c @ ''.md'' \<in> fileNames))
              (filter (\<lambda>c. name c \<notin> fileNames \<or> name c \<notin> dirNames) cs)));
          prefix =
            (if nm \<noteq> []
             then (if linkDir then linkLine (Entry nm pth (Some cs)) @ ''\<newline>''
                   else ''- '' @ niceName nm @ ''\<newline>'')
             else [])
      in prefix @ content)"

subsection \<open>The file system\<close>

text \<open>
  What \<^verbatim>\<open>fs.readdirSync\<close> and \<^verbatim>\<open>fs.statSync\<close> see: a regular file, a directory
  with its entries in listing order, a directory that cannot be listed, and an entry
  whose \<^verbatim>\<open>stat\<close> fails (a dangling link). Each failure is an exception of the source,
  caught only by the top level, which reports it and exits with status 1. A node is a
  finite tree: links that lead back into a directory above them are outside the model.
\<close>

datatype FsNode = FsFile | FsDir "(string \<times> FsNode) list" | FsNoRead | FsDangling

datatype fs_error = ENOENT | ENOTDIR | EACCES

definition statIsDirectory :: "FsNode \<Rightarrow> fs_error + bool" where
  "statIsDirectory node =
     (case node of
        FsFile \<Rightarrow> Inr False
      | FsDir items \<Rightarrow> Inr True
      | FsNoRead \<Rightarrow> Inr True
      | FsDangling \<Rightarrow> Inl ENOENT)"

subsection \<open>Building the tree, with pruning\<close>

text \<open>
  \<^verbatim>\<open>
  function buildTree(location: string, name = '', tPath = ''): Entry {
    let children: Entry[] = [];
    for (let item of fs.readdirSync(location)) {
      if (ignores.test(item)) continue;
      let iPath = tPath + '/' + item;
      let iLocation = path.join(location, item);
      if (fs.statSync(iLocation).isDirectory()) {
        let sub = buildTree(iLocation, item, iPath);
        if (sub.children != null && sub.children.length > 0)
          children.push(buildTree(iLocation, item, iPath));
      } else if (isDoc.test(item)) {
        children.push({ name: item, path: iPath });
      }
    }
    return { name, children, path: tPath };
  }
  \<close>
  The location is represented by the node found there; \<open>buildChildren\<close> is the loop,
  with the array \<^verbatim>\<open>children\<close> built so far as its last argument.
\<close>

fun buildTree :: "FsNode \<Rightarrow> string \<Rightarrow> string \<Rightarrow> fs_error + Entry"
  and buildChildren :: "(string \<times> FsNode) list \<Rightarrow> string \<Rightarrow> Entry list \<Rightarrow> fs_error + Entry list"
where
  "buildTree (FsDir items) nm tPath =
     (case buildChildren items tPath [] of
        Inl e \<Rightarrow> Inl e
      | Inr kids \<Rightarrow> Inr (Entry nm tPath (Some kids)))"
| "buildTree FsFile nm tPath = Inl ENOTDIR"
| "buildTree FsNoRead nm tPath = Inl EACCES"
| "buildTree FsDangling nm tPath = Inl ENOENT"
| "buildChildren [] tPath kids = Inr kids"
| "buildChildren ((item, node) # rest) tPath kids =
     (if ignores item then buildChildren rest tPath kids
      else
        (let iPath = tPath @ ''/'' @ item
         in case statIsDirectory node of
              Inl e \<Rightarrow> Inl e
            | Inr True \<Rightarrow>
                (case buildTree node item iPath of
                   Inl e \<Rightarrow> Inl e
                 | Inr sub \<Rightarrow>
                     if children sub \<noteq> None \<and> length (the (children sub)) > 0
                     then (case buildTree node item iPath of
                             Inl e \<Rightarrow> Inl e
                           | Inr sub' \<Rightarrow> buildChildren rest tPath (kids @ [sub']))
                     else buildChildren rest tPath kids)
            | Inr False \<Rightarrow>
                if isDoc item then buildChildren rest tPath (kids @ [Entry item iPath None])
                else buildChildren rest tPath kids))"

subsection \<open>The plain copy of the generator\<close>

text \<open>
  \<^verbatim>\<open>src/index.ts\<close> holds a second, plain copy of both functions, with the same two
  patterns.
  Its renderer has no folding and no \<^verbatim>\<open>niceName\<close>:
  \<^verbatim>\<open>
  function renderToMd(tree: Entry): string {
    if (!tree.children) return `- [${tree.name.split('.')[0]}](${tree.path.replace(/ /g, '%20')})`;
    else {
      let content = tree.children
        .map(c => renderToMd(c))
        .join('\n').split('\n').map(item => '  ' + item).join('\n');
      let prefix = tree.name ? `- ${tree.name}\n` : '';
      return prefix + content;
    }
  }
  \<close>
\<close>

fun renderToMd_index :: "Entry \<Rightarrow> string" where
  "renderToMd_index (Entry nm pth None) =
     ''- ['' @ hd (splitOn (CHR ''.'') nm) @ '']('' @ replaceSpaces pth @ '')''"
| "renderToMd_index (Entry nm pth (Some cs)) =
     (let content = indentLines (joinWith ''\<newline>'' (map renderToMd_index cs));
          prefix = (if nm \<noteq> [] then ''- '' @ nm @ ''\<newline>'' else [])
      in prefix @ content)"

text \<open>
  Its builder has no pruning, and it asks \<^verbatim>\<open>fs.statSync\<close> about the tree path
  \<^verbatim>\<open>iPath\<close>, not about the location:
  \<^verbatim>\<open>
  function buildTree(location: string, name = '', tPath = ''): Entry {
    let children: Entry[] = [];
    for (let item of fs.readdirSync(location)) {
      if (ignores.test(item)) continue;
      let iPath = tPath + '/' + item;
      let iLocation = path.join(location, item);
      if (fs.statSync(iPath).isDirectory()) {
        children.push(buildTree(iLocation, item, iPath));
      } else if (isDoc.test(item)) {
        children.push({ name: item, path: iPath });
      }
    }
    return { name, children, path: tPath };
  }
  \<close>
  The tree path starts with \<^verbatim>\<open>/\<close>, so it is resolved from the root of the whole file
  system, which this copy takes as a further argument.
\<close>

fun lookupFs :: "FsNode \<Rightarrow> string list \<Rightarrow> fs_error + FsNode" where
  "lookupFs node [] = Inr node"
| "lookupFs (FsDir items) (seg # segs) =
     (case map_of items seg of
        None \<Rightarrow> Inl ENOENT
      | Some node \<Rightarrow> lookupFs node segs)"
| "lookupFs FsFile (seg # segs) = Inl ENOTDIR"
| "lookupFs FsNoRead (seg # segs) = Inl EACCES"
| "lookupFs FsDangling (seg # segs) = Inl ENOENT"

definition statPath :: "FsNode \<Rightarrow> string \<Rightarrow> fs_error + bool" where
  "statPath fsroot p =
     (case lookupFs fsroot (filter (\<lambda>seg. seg \<noteq> []) (splitOn (CHR ''/'') p)) of
        Inl e \<Rightarrow> Inl e
      | Inr node \<Rightarrow> statIsDirectory node)"

fun buildTree_index :: "FsNode \<Rightarrow> FsNode \<Rightarrow> string \<Rightarrow> string \<Rightarrow> fs_error + Entry"
  and buildChildren_index ::
    "FsNode \<Rightarrow> (string \<times> FsNode) list \<Rightarrow> string \<Rightarrow> Entry list \<Rightarrow> fs_error + Entry list"
where
  "buildTree_index fsroot (FsDir items) nm tPath =
     (case buildChildren_index fsroot items tPath [] of
        Inl e \<Rightarrow> Inl e
      | Inr kids \<Rightarrow> Inr (Entry nm tPath (Some kids)))"
| "buildTree_index fsroot FsFile nm tPath = Inl ENOTDIR"
| "buildTree_index fsroot FsNoRead nm tPath = Inl EACCES"
| "buildTree_index fsroot FsDangling nm tPath = Inl ENOENT"
| "buildChildren_index fsroot [] tPath kids = Inr kids"
| "buildChildren_index fsroot ((item, node) # rest) tPath kids =
     (if ignores item then buildChildren_index fsroot rest tPath kids
      else
        (let iPath = tPath @ ''/'' @ item
         in case statPath fsroot iPath of
              Inl e \<Rightarrow> Inl e
            | Inr True \<Rightarrow>
                (case buildTree_index fsroot node item iPath of
                   Inl e \<Rightarrow> Inl e
                 | Inr sub \<Rightarrow> buildChildren_index fsroot rest tPath (kids @ [sub]))
            | Inr False \<Rightarrow>
                if isDoc item
                then buildChildren_index fsroot rest tPath (kids @ [Entry item iPath None])
                else buildChildren_index fsroot rest tPath kids))"

subsection \<open>Notions used to state the properties of the generator\<close>

text \<open>All nodes strictly below a node, parents ahead of their children.\<close>

fun descendants :: "Entry \<Rightarrow> Entry list" where
  "descendants (Entry nm pth None) = []"
| "descendants (Entry nm pth (Some cs)) = concat (map (\<lambda>c. c # descendants c) cs)"

definition isContainer :: "Entry \<Rightarrow> bool" where
  "isContainer e \<longleftrightarrow> children e \<noteq> None"

text \<open>
  A directory has documents when some file accepted by \<open>isDoc\<close> lies in it or below it,
  on a way through directories that \<open>ignores\<close> does not reject.
\<close>

fun hasDocs :: "FsNode \<Rightarrow> bool"
  and anyDocs :: "(string \<times> FsNode) list \<Rightarrow> bool"
where
  "hasDocs (FsDir items) = anyDocs items"
| "hasDocs FsFile = False"
| "hasDocs FsNoRead = False"
| "hasDocs FsDangling = False"
| "anyDocs [] = False"
| "anyDocs ((item, node) # rest) =
     ((\<not> ignores item \<and> (if node = FsFile then isDoc item else hasDocs node)) \<or> anyDocs rest)"

text \<open>
  The tree paths of the directories with documents that are reached from a directory
  through directories that are not ignored, in listing order; and likewise the tree
  paths of the files that \<open>isDoc\<close> accepts.
\<close>

fun docDirs :: "FsNode \<Rightarrow> string \<Rightarrow> string list"
  and docDirsIn :: "(string \<times> FsNode) list \<Rightarrow> string \<Rightarrow> string list"
where
  "docDirs (FsDir items) tPath = docDirsIn items tPath"
| "docDirs FsFile tPath = []"
| "docDirs FsNoRead tPath = []"
| "docDirs FsDangling tPath = []"
| "docDirsIn [] tPath = []"
| "docDirsIn ((item, node) # rest) tPath =
     (if \<not> ignores item \<and> hasDocs node
      then (tPath @ ''/'' @ item) # docDirs node (tPath @ ''/'' @ item)
      else []) @ docDirsIn rest tPath"

fun docFiles :: "FsNode \<Rightarrow> string \<Rightarrow> string list"
  and docFilesIn :: "(string \<times> FsNode) list \<Rightarrow> string \<Rightarrow> string list"
where
  "docFiles (FsDir items) tPath = docFilesIn items tPath"
| "docFiles FsFile tPath = []"
| "docFiles FsNoRead tPath = []"
| "docFiles FsDangling tPath = []"
| "docFilesIn [] tPath = []"
| "docFilesIn ((item, node) # rest) tPath =
     (if ignores item then []
      else if node = FsFile then (if isDoc item then [tPath @ ''/'' @ item] else [])
      else docFiles node (tPath @ ''/'' @ item)) @ docFilesIn rest tPath"

text \<open>A directory tree in which every listing and every \<^verbatim>\<open>stat\<close> succeeds.\<close>

fun readable :: "FsNode \<Rightarrow> bool"
  and readableIn :: "(string \<times> FsNode) list \<Rightarrow> bool"
where
  "readable (FsDir items) = readableIn items"
| "readable FsFile = True"
| "readable FsNoRead = False"
| "readable FsDangling = False"
| "readableIn [] = True"
| "readableIn ((item, node) # rest) = (readable node \<and> readableIn rest)"

text \<open>The name without a final \<^verbatim>\<open>.md\<close>.\<close>

definition stripMd :: "string \<Rightarrow> string" where
  "stripMd nm = (if endsWith nm ''.md'' then take (length nm - 3) nm else nm)"

text \<open>Every space replaced by \<^verbatim>\<open>%20\<close>, every other character kept.\<close>

definition percentEncodeSpaces :: "string \<Rightarrow> string" where
  "percentEncodeSpaces p = concat (map (\<lambda>c. if c = CHR '' '' then ''%20'' else [c]) p)"

section \<open>The markdown documenter\<close>

subsection \<open>The item model\<close>

text \<open>
  The kinds of \<^verbatim>\<open>ApiItemKind\<close> that the documenter names, and \<open>OtherKind\<close> with the
  kind's own text for every further kind of the item model (constructors, call and
  index signatures, enum members, ...).
\<close>

datatype ApiItemKind =
    Class | Enum | Interface | Method | MethodSignature | Function | Namespace | Package
  | Property | PropertySignature | TypeAlias | Variable | Model | EntryPoint
  | OtherKind string

fun kindText :: "ApiItemKind \<Rightarrow> string" where
  "kindText Class = ''Class''"
| "kindText Enum = ''Enum''"
| "kindText Interface = ''Interface''"
| "kindText Method = ''Method''"
| "kindText MethodSignature = ''MethodSignature''"
| "kindText Function = ''Function''"
| "kindText Namespace = ''Namespace''"
| "kindText Package = ''Package''"
| "kindText Property = ''Property''"
| "kindText PropertySignature = ''PropertySignature''"
| "kindText TypeAlias = ''TypeAlias''"
| "kindText Variable = ''Variable''"
| "kindText Model = ''Model''"
| "kindText EntryPoint = ''EntryPoint''"
| "kindText (OtherKind k) = k"

text \<open>
  The nodes of a page. The node classes and the emitter that turns a page into markdown
  text are not among the sources: a node is given by the arguments of its constructor,
  a table by its header titles and its rows of cells, and a page by its nodes.
\<close>

datatype DocNode =
    DocHeading string "nat option"
  | DocPlainText string
  | DocLinkTag string string
  | DocCodeSpan string
  | DocFencedCode string string
  | DocEmphasisSpan bool bool "DocNode list"
  | DocParagraph "DocNode list"
  | DocNoteBox "DocNode list"
  | DocTable "string list" "DocNode list list list"
  | DocOther string

text \<open>
  The documentation comment of an item: the sections the documenter reads. A custom
  block is its tag in upper case and its content.
\<close>

record DocComment =
  summarySection :: "DocNode list"
  remarksBlock :: "DocNode list option"
  deprecatedBlock :: "DocNode list option"
  returnsBlock :: "DocNode list option"
  customBlocks :: "(string \<times> DocNode list) list"

text \<open>
  What the documenter reads of one item. A field that only some classes of items have
  is optional: \<open>overloadIndex\<close> for an item with a parameter list, \<open>returnType\<close> for
  one with a return type, \<open>propertyType\<close> for a property item, \<open>initializer\<close> for an
  enum member, \<open>excerpt\<close> (the text, and the text with modifiers) for a declared item,
  \<open>tsdocComment\<close> for a documented item that has a comment. A parameter is its name,
  the text of its type and the content of its \<^verbatim>\<open>@param\<close> block. \<open>scopedName\<close> and
  \<open>conciseSignature\<close> hold what \<^verbatim>\<open>getScopedNameWithinPackage()\<close> and
  \<^verbatim>\<open>Utilities.getConciseSignature\<close> return for the item.
\<close>

record ApiInfo =
  kind :: ApiItemKind
  displayName :: string
  scopedName :: string
  conciseSignature :: string
  overloadIndex :: "nat option"
  parameters :: "(string \<times> string \<times> DocNode list option) list"
  returnType :: "string option"
  isEventProperty :: bool
  propertyType :: "string option"
  initializer :: "string option"
  releaseTagBeta :: bool
  tsdocComment :: "DocComment option"
  excerpt :: "(string \<times> string) option"

datatype ApiItem = ApiItem (info: ApiInfo) (members: "ApiItem list")

datatype js_error = Error string | TypeError

text \<open>The pages written so far: file name below the output folder, and content.\<close>

type_synonym Files = "(string \<times> DocNode list) list"

subsection \<open>File names and links\<close>

definition toLowerChar :: "char \<Rightarrow> char" where
  "toLowerChar c =
     (let n = (of_char c :: nat)
      in if (65 \<le> n \<and> n \<le> 90) \<or> (192 \<le> n \<and> n \<le> 222 \<and> n \<noteq> 215)
         then char_of (n + 32) else c)"

definition toLowerCase :: "string \<Rightarrow> string" where
  "toLowerCase s = map toLowerChar s"

text \<open>A number in a template string: its decimal digits.\<close>

fun showNat :: "nat \<Rightarrow> string" where
  "showNat n =
     (if n < 10 then [char_of (48 + n)]
      else showNat (n div 10) @ [char_of (48 + n mod 10)])"

text \<open>
  \<^verbatim>\<open>PackageName.getUnscopedName\<close> of the platform library, modelled from its
  documentation: the part after the slash of a scope \<^verbatim>\<open>@scope/\<close>, the whole name when
  there is no scope. The item model is given validated, so its rejections of malformed
  names are left out.
\<close>

definition getUnscopedName :: "string \<Rightarrow> string" where
  "getUnscopedName packageName =
     (if take 1 packageName = ''@'' \<and> CHR ''/'' \<in> set packageName
      then drop 1 (dropWhile (\<lambda>c. c \<noteq> CHR ''/'') packageName)
      else packageName)"

text \<open>
  \<^verbatim>\<open>
  private _getFilenameForApiItem(apiItem: ApiItem): string {
    let baseName: string = '';
    for (const hierarchyItem of apiItem.getHierarchy()) {
      // For overloaded methods, add a suffix such as "MyClass.myMethod_2".
      let qualifiedName: string = hierarchyItem.displayName;
      if (ApiParameterListMixin.isBaseClassOf(hierarchyItem)) {
        if (hierarchyItem.overloadIndex > 0) {
          qualifiedName += `_${hierarchyItem.overloadIndex}`;
        }
      }
      switch (hierarchyItem.kind) {
        case ApiItemKind.Model:
        case ApiItemKind.EntryPoint:
          break;
        case ApiItemKind.Package:
          baseName = PackageName.getUnscopedName(hierarchyItem.displayName);
          break;
        case ApiItemKind.Method:
        case ApiItemKind.MethodSignature:
        case ApiItemKind.Property:
        case ApiItemKind.PropertySignature:
          baseName += '.md#' + hierarchyItem.displayName.toLowerCase();
          break;
        default:
          baseName += '/' + qualifiedName;
      }
    }
    if (baseName.indexOf('#') < 0) return baseName + '.md';
    else return baseName;
  }
  \<close>
  An item is given by its hierarchy: its ancestors from the model down, then the item.
\<close>

definition qualifiedName :: "ApiInfo \<Rightarrow> string" where
  "qualifiedName hierarchyItem =
     (case overloadIndex hierarchyItem of
        Some i \<Rightarrow>
          if i > 0 then displayName hierarchyItem @ ''_'' @ showNat i
          else displayName hierarchyItem
      | None \<Rightarrow> displayName hierarchyItem)"

definition filenameStep :: "string \<Rightarrow> ApiInfo \<Rightarrow> string" where
  "filenameStep baseName hierarchyItem =
     (case kind hierarchyItem of
        Model \<Rightarrow> baseName
      | EntryPoint \<Rightarrow> baseName
      | Package \<Rightarrow> getUnscopedName (displayName hierarchyItem)
      | Method \<Rightarrow> baseName @ ''.md#'' @ toLowerCase (displayName hierarchyItem)
      | MethodSignature \<Rightarrow> baseName @ ''.md#'' @ toLowerCase (displayName hierarchyItem)
      | Property \<Rightarrow> baseName @ ''.md#'' @ toLowerCase (displayName hierarchyItem)
      | PropertySignature \<Rightarrow> baseName @ ''.md#'' @ toLowerCase (displayName hierarchyItem)
      | _ \<Rightarrow> baseName @ ''/'' @ qualifiedName hierarchyItem)"

definition getFilenameForApiItem :: "ApiInfo list \<Rightarrow> string" where
  "getFilenameForApiItem hierarchy =
     (let baseName = foldl filenameStep [] hierarchy
      in if CHR ''#'' \<notin> set baseName then baseName @ ''.md'' else baseName)"

text \<open>
  \<^verbatim>\<open>path.dirname\<close> and \<^verbatim>\<open>path.relative\<close> of the platform library, modelled from
  their documentation for paths without \<^verbatim>\<open>..\<close> portions, as the derived file names
  are: the portions of a path, the directory of a file, and the way from a directory
  to a file.
\<close>

definition pathPortions :: "string \<Rightarrow> string list" where
  "pathPortions p = filter (\<lambda>seg. seg \<noteq> [] \<and> seg \<noteq> ''.'') (splitOn (CHR ''/'') p)"

definition dirname :: "string \<Rightarrow> string" where
  "dirname p =
     (case butlast (pathPortions p) of
        [] \<Rightarrow> (if take 1 p = ''/'' then ''/'' else ''.'')
      | ds \<Rightarrow> (if take 1 p = ''/'' then ''/'' else []) @ joinWith ''/'' ds)"

fun dropCommon :: "string list \<Rightarrow> string list \<Rightarrow> string list \<times> string list" where
  "dropCommon (a # as) (b # bs) = (if a = b then dropCommon as bs else (a # as, b # bs))"
| "dropCommon as bs = (as, bs)"

definition relative :: "string \<Rightarrow> string \<Rightarrow> string" where
  "relative from to =
     (case dropCommon (pathPortions from) (pathPortions to) of
        (up, down) \<Rightarrow> joinWith ''/'' (replicate (length up) ''..'' @ down))"

text \<open>
  \<^verbatim>\<open>
  private _getLinkFilenameForApiItem(apiItem: ApiItem, fromApiItem: ApiItem): string {
    let myDirname = path.dirname(this._getFilenameForApiItem(fromApiItem));
    let otherFilename = this._getFilenameForApiItem(apiItem);
    return path.relative(myDirname, otherFilename);
  }
  \<close>
\<close>

definition getLinkFilenameForApiItem :: "ApiInfo list \<Rightarrow> ApiInfo list \<Rightarrow> string" where
  "getLinkFilenameForApiItem hierarchy fromHierarchy =
     (let myDirname = dirname (getFilenameForApiItem fromHierarchy);
          otherFilename = getFilenameForApiItem hierarchy
      in relative myDirname otherFilename)"

subsection \<open>Sections, cells and the parts of a page that do not recurse\<close>

text \<open>
  \<^verbatim>\<open>DocSection.appendNodeInParagraph\<close> of the comment library: the node goes into the
  last node of the section when that is a paragraph, into a new paragraph otherwise.
\<close>

definition appendNodeInParagraph :: "DocNode list \<Rightarrow> DocNode \<Rightarrow> DocNode list" where
  "appendNodeInParagraph nodes docNode =
     (case rev nodes of
        DocParagraph ps # earlier \<Rightarrow> rev earlier @ [DocParagraph (ps @ [docNode])]
      | _ \<Rightarrow> nodes @ [DocParagraph [docNode]])"

definition appendNodesInParagraph :: "DocNode list \<Rightarrow> DocNode list \<Rightarrow> DocNode list" where
  "appendNodesInParagraph nodes docNodes = foldl appendNodeInParagraph nodes docNodes"

text \<open>
  \<^verbatim>\<open>
  internalKinds = [ApiItemKind.Method, ApiItemKind.MethodSignature,
                   ApiItemKind.Property, ApiItemKind.PropertySignature];
  \<close>
\<close>

definition internalKinds :: "ApiItemKind list" where
  "internalKinds = [Method, MethodSignature, Property, PropertySignature]"

text \<open>The first \<^verbatim>\<open>switch\<close> of \<^verbatim>\<open>_writeApiItem\<close>: the heading, or the exception.\<close>

definition headingNode :: "ApiInfo \<Rightarrow> js_error + DocNode" where
  "headingNode apiItem =
     (let baseLevel = (if kind apiItem \<in> set internalKinds then 3 else 1 :: nat)
      in case kind apiItem of
           Class \<Rightarrow> Inr (DocHeading (scopedName apiItem @ '' class'') None)
         | Enum \<Rightarrow> Inr (DocHeading (scopedName apiItem @ '' enum'') None)
         | Interface \<Rightarrow> Inr (DocHeading (scopedName apiItem @ '' interface'') None)
         | Method \<Rightarrow> Inr (DocHeading (displayName apiItem) (Some baseLevel))
         | MethodSignature \<Rightarrow> Inr (DocHeading (displayName apiItem) (Some baseLevel))
         | Function \<Rightarrow> Inr (DocHeading (scopedName apiItem @ '' function'') None)
         | Namespace \<Rightarrow> Inr (DocHeading (scopedName apiItem @ '' namespace'') None)
         | Package \<Rightarrow>
             Inr (DocHeading (getUnscopedName (displayName apiItem) @ '' package'') None)
         | Property \<Rightarrow> Inr (DocHeading (displayName apiItem) (Some 3))
         | PropertySignature \<Rightarrow> Inr (DocHeading (displayName apiItem) (Some 3))
         | TypeAlias \<Rightarrow> Inr (DocHeading (scopedName apiItem @ '' type'') None)
         | Variable \<Rightarrow> Inr (DocHeading (scopedName apiItem @ '' variable'') None)
         | _ \<Rightarrow> Inl (Error (''Unsupported API item kind: '' @ kindText (kind apiItem))))"

definition betaWarning :: DocNode where
  "betaWarning =
     DocNoteBox [DocParagraph [DocPlainText
       (''This API is provided as a preview for developers and may change'' @
        '' based on feedback that we receive.  Do not use this API in a production environment.'')]]"

text \<open>
  What \<^verbatim>\<open>_writeApiItem\<close> appends between its two \<^verbatim>\<open>switch\<close> statements: the beta
  warning, the deprecation note and the summary, the remarks, the signature.
\<close>

definition introNodes :: "ApiInfo \<Rightarrow> DocNode list" where
  "introNodes apiItem =
     (if releaseTagBeta apiItem then [betaWarning] else []) @
     (case tsdocComment apiItem of
        None \<Rightarrow> []
      | Some c \<Rightarrow>
          (case deprecatedBlock c of
             None \<Rightarrow> []
           | Some d \<Rightarrow>
               [DocNoteBox
                 (DocParagraph [DocPlainText ''Warning: This API is now obsolete. ''] # d)]) @
          summarySection c) @
     (case tsdocComment apiItem of
        None \<Rightarrow> []
      | Some c \<Rightarrow>
          (case remarksBlock c of
             None \<Rightarrow> []
           | Some r \<Rightarrow> DocHeading ''Remarks'' (Some 4) # r)) @
     (case excerpt apiItem of
        None \<Rightarrow> []
      | Some (text', withModifiers) \<Rightarrow>
          if length text' > 0
          then [DocParagraph [DocEmphasisSpan True False [DocPlainText ''Signature:'']],
                DocFencedCode withModifiers ''typescript'']
          else [])"

text \<open>What it appends after the second: the \<^verbatim>\<open>@example\<close> blocks.\<close>

definition exampleNodes :: "ApiInfo \<Rightarrow> DocNode list" where
  "exampleNodes apiItem =
     (case tsdocComment apiItem of
        None \<Rightarrow> []
      | Some c \<Rightarrow>
          (let exampleBlocks = filter (\<lambda>x. fst x = ''@EXAMPLE'') (customBlocks c)
           in concat (map
                (\<lambda>(exampleNumber, exampleBlock).
                   DocHeading
                     (if length exampleBlocks > 1 then ''Example '' @ showNat exampleNumber
                      else ''Example'') (Some 4) # snd exampleBlock)
                (zip [1 ..< Suc (length exampleBlocks)] exampleBlocks))))"

text \<open>The cells of a table row. An item in a cell comes with its ancestors.\<close>

definition createTitleCell :: "ApiInfo list \<Rightarrow> ApiInfo \<Rightarrow> ApiInfo list \<Rightarrow> DocNode list" where
  "createTitleCell ancestors apiItem originalHierarchy =
     [DocParagraph [DocLinkTag (conciseSignature apiItem)
        (getLinkFilenameForApiItem (ancestors @ [apiItem]) originalHierarchy)]]"

definition appendAndMergeSection :: "DocNode list \<Rightarrow> DocNode list \<Rightarrow> DocNode list" where
  "appendAndMergeSection output nodes =
     (case nodes of
        DocParagraph ps # rest \<Rightarrow> appendNodesInParagraph output ps @ rest
      | _ \<Rightarrow> output @ nodes)"

definition createDescriptionCell :: "ApiInfo \<Rightarrow> DocNode list" where
  "createDescriptionCell apiItem =
     (let section =
            (if releaseTagBeta apiItem
             then appendNodesInParagraph []
                    [DocEmphasisSpan True True [DocPlainText ''(BETA)''], DocPlainText '' '']
             else [])
      in case tsdocComment apiItem of
           None \<Rightarrow> section
         | Some c \<Rightarrow> appendAndMergeSection section (summarySection c))"

definition createPropertyTypeCell :: "ApiInfo \<Rightarrow> DocNode list" where
  "createPropertyTypeCell apiItem =
     (case propertyType apiItem of
        None \<Rightarrow> []
      | Some t \<Rightarrow> appendNodeInParagraph [] (DocCodeSpan t))"

text \<open>\<^verbatim>\<open>_writeEnumTables\<close>; a member without initializer makes it fail.\<close>

fun enumRows :: "ApiItem list \<Rightarrow> js_error + DocNode list list list" where
  "enumRows [] = Inr []"
| "enumRows (apiEnumMember # rest) =
     (case initializer (info apiEnumMember) of
        None \<Rightarrow> Inl TypeError
      | Some t \<Rightarrow>
          (case enumRows rest of
             Inl e \<Rightarrow> Inl e
           | Inr rows \<Rightarrow>
               Inr ([[DocParagraph [DocPlainText (conciseSignature (info apiEnumMember))]],
                     [DocParagraph [DocCodeSpan t]],
                     createDescriptionCell (info apiEnumMember)] # rows)))"

definition writeEnumTables :: "DocNode list \<Rightarrow> ApiItem \<Rightarrow> js_error + DocNode list" where
  "writeEnumTables output apiEnum =
     (case enumRows (members apiEnum) of
        Inl e \<Rightarrow> Inl e
      | Inr rows \<Rightarrow>
          Inr (if length rows > 0
               then output @ [DocHeading ''Enumeration Members'' None,
                              DocTable [''Member'', ''Value'', ''Description''] rows]
               else output))"

text \<open>\<^verbatim>\<open>_writeParameterTables\<close>.\<close>

definition writeParameterTables :: "DocNode list \<Rightarrow> ApiInfo \<Rightarrow> DocNode list" where
  "writeParameterTables output apiItem =
     (let rows = map (\<lambda>(pname, ptype, pblock).
                   [[DocParagraph [DocPlainText pname]],
                    [DocParagraph [DocCodeSpan ptype]],
                    (case pblock of None \<Rightarrow> [] | Some nodes \<Rightarrow> nodes)]) (parameters apiItem);
          output1 = (if length rows > 0
                     then output @ [DocHeading ''Parameters'' (Some 4),
                                    DocTable [''Parameter'', ''Type'', ''Description''] rows]
                     else output)
      in case returnType apiItem of
           None \<Rightarrow> output1
         | Some t \<Rightarrow>
             output1 @
             [DocParagraph [DocEmphasisSpan True False [DocPlainText ''Returns:'']],
              DocParagraph [DocCodeSpan
                (if trimString t \<noteq> [] then trimString t else ''(not declared)'')]] @
             (case tsdocComment apiItem of
                None \<Rightarrow> []
              | Some c \<Rightarrow> (case returnsBlock c of None \<Rightarrow> [] | Some nodes \<Rightarrow> nodes)))"

text \<open>
  \<^verbatim>\<open>_writeBreadcrumb\<close>: the link home, then one link for each item of the hierarchy
  that is neither the model nor an entry point.
\<close>

fun breadcrumbLoop :: "ApiInfo list \<Rightarrow> ApiInfo list \<Rightarrow> ApiInfo list \<Rightarrow> DocNode list \<Rightarrow> DocNode list"
where
  "breadcrumbLoop outer [] hierarchy output = output"
| "breadcrumbLoop outer (hierarchyItem # rest) hierarchy output =
     breadcrumbLoop (outer @ [hierarchyItem]) rest hierarchy
       (case kind hierarchyItem of
          Model \<Rightarrow> output
        | EntryPoint \<Rightarrow> output
        | _ \<Rightarrow>
            appendNodesInParagraph output
              [DocPlainText '' > '',
               DocLinkTag (displayName hierarchyItem)
                 (getLinkFilenameForApiItem (outer @ [hierarchyItem]) hierarchy)])"

definition writeBreadcrumb :: "DocNode list \<Rightarrow> ApiInfo list \<Rightarrow> DocNode list" where
  "writeBreadcrumb output hierarchy =
     breadcrumbLoop [] hierarchy hierarchy
       (appendNodeInParagraph output (DocLinkTag ''Home'' ''/''))"

text \<open>The rows of the member tables, and a table with its heading when it has rows.\<close>

definition memberRow :: "ApiInfo list \<Rightarrow> ApiInfo list \<Rightarrow> ApiItem \<Rightarrow> DocNode list list" where
  "memberRow memberAncestors containerHierarchy apiMember =
     [createTitleCell memberAncestors (info apiMember) containerHierarchy,
      createDescriptionCell (info apiMember)]"

definition propertyRow :: "ApiInfo list \<Rightarrow> ApiInfo list \<Rightarrow> ApiItem \<Rightarrow> DocNode list list" where
  "propertyRow memberAncestors containerHierarchy apiMember =
     [createTitleCell memberAncestors (info apiMember) containerHierarchy,
      createPropertyTypeCell (info apiMember),
      createDescriptionCell (info apiMember)]"

definition tableNodes :: "string \<Rightarrow> string list \<Rightarrow> DocNode list list list \<Rightarrow> DocNode list" where
  "tableNodes title headerTitles rows =
     (if length rows > 0 then [DocHeading title None, DocTable headerTitles rows] else [])"

definition isMethodMember :: "ApiItem \<Rightarrow> bool" where
  "isMethodMember apiMember \<longleftrightarrow> kind (info apiMember) \<in> {MethodSignature, Method}"

definition isEventMember :: "ApiItem \<Rightarrow> bool" where
  "isEventMember apiMember \<longleftrightarrow>
     kind (info apiMember) \<in> {PropertySignature, Property} \<and> isEventProperty (info apiMember)"

definition isPropertyMember :: "ApiItem \<Rightarrow> bool" where
  "isPropertyMember apiMember \<longleftrightarrow>
     kind (info apiMember) \<in> {PropertySignature, Property} \<and> \<not> isEventProperty (info apiMember)"

text \<open>The kinds with a case in the member loop of \<^verbatim>\<open>_writePackageOrNamespaceTables\<close>.\<close>

definition containerMemberKinds :: "ApiItemKind list" where
  "containerMemberKinds = [Class, Enum, Interface, Namespace, Function, TypeAlias, Variable]"

definition containerTables ::
  "ApiInfo list \<Rightarrow> ApiInfo list \<Rightarrow> ApiItem list \<Rightarrow> DocNode list" where
  "containerTables memberAncestors containerHierarchy apiMembers =
     (let rowsOf = (\<lambda>k. map (memberRow memberAncestors containerHierarchy)
                          (filter (\<lambda>m. kind (info m) = k) apiMembers))
      in tableNodes ''Classes'' [''Class'', ''Description''] (rowsOf Class) @
         tableNodes ''Enumerations'' [''Enumeration'', ''Description''] (rowsOf Enum) @
         tableNodes ''Functions'' [''Function'', ''Description''] (rowsOf Function) @
         tableNodes ''Interfaces'' [''Interface'', ''Description''] (rowsOf Interface) @
         tableNodes ''Namespaces'' [''Namespace'', ''Description''] (rowsOf Namespace) @
         tableNodes ''Variables'' [''Variable'', ''Description''] (rowsOf Variable) @
         tableNodes ''Type Aliases'' [''Type Alias'', ''Description''] (rowsOf TypeAlias))"

subsection \<open>Writing pages\<close>

text \<open>
  \<^verbatim>\<open>_writeApiItem\<close> renders an item into a section, \<^verbatim>\<open>_writeApiItemPage\<close> renders
  it into a section of its own and writes the file unless the item is of an internal
  kind:
  \<^verbatim>\<open>
  private _writeApiItemPage(apiItem: ApiItem): void {
    const output: DocSection = new DocSection({ configuration: this._tsdocConfiguration });
    this._writeBreadcrumb(output, apiItem);
    this._writeApiItem(apiItem, output);
    const filename: string = path.join(this._outputFolder, this._getFilenameForApiItem(apiItem));
    ...
    if (!this.internalKinds.includes(apiItem.kind)) {
      mkdirp.sync(path.dirname(filename));
      FileSystem.writeFile(filename, stringBuilder.toString(), { ... });
    }
  }
  \<close>
  The second \<^verbatim>\<open>switch\<close> of \<^verbatim>\<open>_writeApiItem\<close> sends a class and an interface to the
  same \<^verbatim>\<open>_writeInterfaceTables\<close>; no caller of \<^verbatim>\<open>_writeClassTables\<close> exists.
  \<^verbatim>\<open>
  switch (apiItem.kind) {
    case ApiItemKind.Class:
      this._writeInterfaceTables(output, apiItem as ApiClass); break;
    case ApiItemKind.Enum:
      this._writeEnumTables(output, apiItem as ApiEnum); break;
    case ApiItemKind.Interface:
      this._writeInterfaceTables(output, apiItem as ApiInterface); break;
    case ApiItemKind.Method: case ApiItemKind.MethodSignature: case ApiItemKind.Function:
      this._writeParameterTables(output, apiItem as ApiParameterListMixin); break;
    case ApiItemKind.Namespace:
      this._writePackageOrNamespaceTables(output, apiItem as ApiNamespace); break;
    case ApiItemKind.Package:
      this._writePackageOrNamespaceTables(output, apiItem as ApiPackage); break;
    case ApiItemKind.Property: case ApiItemKind.PropertySignature: break;
    case ApiItemKind.TypeAlias: break;
    case ApiItemKind.Variable: break;
    default:
      throw new Error('Unsupported API item kind: ' + apiItem.kind);
  }
  \<close>
  The member loops of the two table writers call \<^verbatim>\<open>_writeApiItemPage\<close> for the
  members whose kind has a case, and pass over every other member: \<open>writeMemberPages\<close>
  is that loop, with the kinds that have a case. The rows the loops add to their tables
  are computed apart (\<open>containerTables\<close>, \<open>memberRow\<close>, \<open>propertyRow\<close>), in member
  order. \<open>writeInline\<close> is the loop \<^verbatim>\<open>for (let item of events) this._writeApiItem(item, output)\<close>.
  The members of a package are those of its first entry point.
\<close>

function writeApiItem ::
    "ApiInfo list \<Rightarrow> ApiItem \<Rightarrow> DocNode list \<Rightarrow> Files \<Rightarrow> js_error + (DocNode list \<times> Files)"
  and writeTables ::
    "ApiInfo list \<Rightarrow> ApiItem \<Rightarrow> DocNode list \<Rightarrow> Files \<Rightarrow> js_error + (DocNode list \<times> Files)"
  and writeApiItemPage :: "ApiInfo list \<Rightarrow> ApiItem \<Rightarrow> Files \<Rightarrow> js_error + Files"
  and writePackageOrNamespaceTables ::
    "ApiInfo list \<Rightarrow> ApiItem \<Rightarrow> DocNode list \<Rightarrow> Files \<Rightarrow> js_error + (DocNode list \<times> Files)"
  and writeInterfaceTables ::
    "ApiInfo list \<Rightarrow> ApiItem \<Rightarrow> DocNode list \<Rightarrow> Files \<Rightarrow> js_error + (DocNode list \<times> Files)"
  and writeMemberPages ::
    "ApiItemKind list \<Rightarrow> ApiInfo list \<Rightarrow> ApiItem list \<Rightarrow> Files \<Rightarrow> js_error + Files"
  and writeInline ::
    "ApiInfo list \<Rightarrow> ApiItem list \<Rightarrow> DocNode list \<Rightarrow> Files \<Rightarrow> js_error + (DocNode list \<times> Files)"
where
  "writeApiItem ancestors (ApiItem apiItem ms) output files =
     (case headingNode apiItem of
        Inl e \<Rightarrow> Inl e
      | Inr heading \<Rightarrow>
          (case writeTables ancestors (ApiItem apiItem ms)
                  (output @ [heading] @ introNodes apiItem) files of
             Inl e \<Rightarrow> Inl e
           | Inr (output', files') \<Rightarrow> Inr (output' @ exampleNodes apiItem, files')))"
| "writeTables ancestors (ApiItem apiItem ms) output files =
     (case kind apiItem of
        Class \<Rightarrow> writeInterfaceTables ancestors (ApiItem apiItem ms) output files
      | Enum \<Rightarrow>
          (case writeEnumTables output (ApiItem apiItem ms) of
             Inl e \<Rightarrow> Inl e
           | Inr output' \<Rightarrow> Inr (output', files))
      | Interface \<Rightarrow> writeInterfaceTables ancestors (ApiItem apiItem ms) output files
      | Method \<Rightarrow> Inr (writeParameterTables output apiItem, files)
      | MethodSignature \<Rightarrow> Inr (writeParameterTables output apiItem, files)
      | Function \<Rightarrow> Inr (writeParameterTables output apiItem, files)
      | Namespace \<Rightarrow> writePackageOrNamespaceTables ancestors (ApiItem apiItem ms) output files
      | Package \<Rightarrow> writePackageOrNamespaceTables ancestors (ApiItem apiItem ms) output files
      | Property \<Rightarrow> Inr (output, files)
      | PropertySignature \<Rightarrow> Inr (output, files)
      | TypeAlias \<Rightarrow> Inr (output, files)
      | Variable \<Rightarrow> Inr (output, files)
      | _ \<Rightarrow> Inl (Error (''Unsupported API item kind: '' @ kindText (kind apiItem))))"
| "writeApiItemPage ancestors (ApiItem apiItem ms) files =
     (case writeApiItem ancestors (ApiItem apiItem ms)
             (writeBreadcrumb [] (ancestors @ [apiItem])) files of
        Inl e \<Rightarrow> Inl e
      | Inr (output, files') \<Rightarrow>
          (let filename = getFilenameForApiItem (ancestors @ [apiItem])
           in if kind apiItem \<notin> set internalKinds then Inr (files' @ [(filename, output)])
              else Inr files'))"
| "writePackageOrNamespaceTables ancestors (ApiItem apiContainer ms) output files =
     (if kind apiContainer = Package
      then (case ms of
              [] \<Rightarrow> Inl TypeError
            | ApiItem entryPoint apiMembers # others \<Rightarrow>
                (case writeMemberPages containerMemberKinds
                        (ancestors @ [apiContainer, entryPoint]) apiMembers files of
                   Inl e \<Rightarrow> Inl e
                 | Inr files' \<Rightarrow>
                     Inr (output @ containerTables (ancestors @ [apiContainer, entryPoint])
                                     (ancestors @ [apiContainer]) apiMembers, files')))
      else (case writeMemberPages containerMemberKinds (ancestors @ [apiContainer]) ms files of
              Inl e \<Rightarrow> Inl e
            | Inr files' \<Rightarrow>
                Inr (output @ containerTables (ancestors @ [apiContainer])
                                (ancestors @ [apiContainer]) ms, files')))"
| "writeInterfaceTables ancestors (ApiItem apiClass ms) output files =
     (let hierarchy = ancestors @ [apiClass]
      in case writeMemberPages internalKinds hierarchy ms files of
           Inl e \<Rightarrow> Inl e
         | Inr files1 \<Rightarrow>
             (let events = filter isEventMember ms;
                  properties = filter isPropertyMember ms;
                  methods = filter isMethodMember ms
              in case (if length events > 0
                       then writeInline hierarchy events
                              (output @ tableNodes ''Events'' [''Property'', ''Type'', ''Description'']
                                          (map (propertyRow hierarchy hierarchy) events)) files1
                       else Inr (output, files1)) of
                   Inl e \<Rightarrow> Inl e
                 | Inr (output2, files2) \<Rightarrow>
                     (case (if length properties > 0
                            then writeInline hierarchy properties
                                   (output2 @ tableNodes ''Properties''
                                                [''Property'', ''Type'', ''Description'']
                                                (map (propertyRow hierarchy hierarchy) properties))
                                   files2
                            else Inr (output2, files2)) of
                        Inl e \<Rightarrow> Inl e
                      | Inr (output3, files3) \<Rightarrow>
                          (if length methods > 0
                           then writeInline hierarchy methods
                                  (output3 @ tableNodes ''Methods'' [''Method'', ''Description'']
                                               (map (memberRow hierarchy hierarchy) methods))
                                  files3
                           else Inr (output3, files3)))))"
| "writeMemberPages kinds memberAncestors [] files = Inr files"
| "writeMemberPages kinds memberAncestors (apiMember # rest) files =
     (if kind (info apiMember) \<in> set kinds
      then (case writeApiItemPage memberAncestors apiMember files of
              Inl e \<Rightarrow> Inl e
            | Inr files' \<Rightarrow> writeMemberPages kinds memberAncestors rest files')
      else writeMemberPages kinds memberAncestors rest files)"
| "writeInline memberAncestors [] output files = Inr (output, files)"
| "writeInline memberAncestors (item # rest) output files =
     (case writeApiItem memberAncestors item output files of
        Inl e \<Rightarrow> Inl e
      | Inr (output', files') \<Rightarrow> writeInline memberAncestors rest output' files')"
  by pat_completeness auto

text \<open>
  Every call goes to a smaller item or list of items, or to a function that is later in
  the order page, item, tables, table writer on the same item.
\<close>

termination
proof -
  have le: "size_list f (filter P xs) \<le> size_list f xs" for f :: "ApiItem \<Rightarrow> nat" and P xs
    by (induction xs) simp_all
  have less: "4 * size_list f (filter P xs) < 4 + 4 * size_list f xs"
    for f :: "ApiItem \<Rightarrow> nat" and P xs
    using le [of f P xs] by simp
  show ?thesis
    by (relation "measure
      (case_sum
        (case_sum (\<lambda>(a, i, out, f). 4 * size i + 2)
          (case_sum (\<lambda>(a, i, out, f). 4 * size i + 1) (\<lambda>(a, i, f). 4 * size i + 3)))
        (case_sum
          (case_sum (\<lambda>(a, i, out, f). 4 * size i) (\<lambda>(a, i, out, f). 4 * size i))
          (case_sum (\<lambda>(k, a, ms, f). 4 * size_list size ms)
                    (\<lambda>(a, ms, out, f). 4 * size_list size ms))))")
       (simp_all add: less)
qed

text \<open>
  \<^verbatim>\<open>
  public generateFiles(outputFolder: string): void {
    this._outputFolder = outputFolder;
    this._deleteOldOutputFiles();
    for (const apiPackage of this._apiModel.packages) {
      this._writeApiItemPage(apiPackage);
    }
  }
  \<close>
  The packages are the members of the model; the output folder starts empty.
\<close>

fun writePackages :: "ApiInfo \<Rightarrow> ApiItem list \<Rightarrow> Files \<Rightarrow> js_error + Files" where
  "writePackages apiModel [] files = Inr files"
| "writePackages apiModel (apiPackage # rest) files =
     (case writeApiItemPage [apiModel] apiPackage files of
        Inl e \<Rightarrow> Inl e
      | Inr files' \<Rightarrow> writePackages apiModel rest files')"

definition generateFiles :: "ApiItem \<Rightarrow> js_error + Files" where
  "generateFiles apiModel = writePackages (info apiModel) (members apiModel) []"

text \<open>
  Folding, in the words of the specification: a child is left out when a leaf of its
  name and a container whose name with \<^verbatim>\<open>.md\<close> added is its name are both among the
  children; a child is rendered as a link when a container of its name and a leaf whose
  name is its name with \<^verbatim>\<open>.md\<close> added are both among the children.
\<close>

definition foldedAway :: "Entry list \<Rightarrow> Entry \<Rightarrow> bool" where
  "foldedAway cs c \<longleftrightarrow>
     (\<exists>l \<in> set cs. children l = None \<and> name l = name c) \<and>
     (\<exists>d \<in> set cs. children d \<noteq> None \<and> name d @ ''.md'' = name c)"

definition linkedDir :: "Entry list \<Rightarrow> Entry \<Rightarrow> bool" where
  "linkedDir cs c \<longleftrightarrow>
     (\<exists>d \<in> set cs. children d \<noteq> None \<and> name d = name c) \<and>
     (\<exists>l \<in> set cs. children l = None \<and> name l = name c @ ''.md'')"

subsection \<open>Notions used to state the properties of the documenter\<close>

text \<open>The kinds for which both \<^verbatim>\<open>switch\<close> statements of \<^verbatim>\<open>_writeApiItem\<close> have a case.\<close>

definition supportedKinds :: "ApiItemKind list" where
  "supportedKinds =
     [Package, Namespace, Class, Interface, Enum, Function, Method, MethodSignature,
      Property, PropertySignature, TypeAlias, Variable]"

text \<open>
  The full detail of a member of an internal kind, as \<^verbatim>\<open>_writeApiItem\<close> renders it:
  its heading at level 3, its documentation, for a method its parameters and return
  type, its examples.
\<close>

definition memberDetail :: "ApiInfo \<Rightarrow> DocNode list" where
  "memberDetail apiItem =
     [DocHeading (displayName apiItem) (Some 3)] @ introNodes apiItem @
     (if kind apiItem \<in> {Method, MethodSignature} then writeParameterTables [] apiItem else []) @
     exampleNodes apiItem"

text \<open>A member table of a class or interface page, followed by the details of its members.\<close>

definition memberSection ::
  "string \<Rightarrow> string list \<Rightarrow> (ApiItem \<Rightarrow> DocNode list list) \<Rightarrow> ApiItem list \<Rightarrow> DocNode list" where
  "memberSection title headerTitles row items =
     (if items = [] then []
      else [DocHeading title None, DocTable headerTitles (map row items)] @
           concat (map (\<lambda>m. memberDetail (info m)) items))"

text \<open>An item with a kind, a name and an overload index, and no documentation.\<close>

definition plainItem :: "ApiItemKind \<Rightarrow> string \<Rightarrow> nat option \<Rightarrow> ApiInfo" where
  "plainItem k n i =
     \<lparr>kind = k, displayName = n, scopedName = n, conciseSignature = n, overloadIndex = i,
      parameters = [], returnType = None, isEventProperty = False, propertyType = None,
      initializer = None, releaseTagBeta = False, tsdocComment = None, excerpt = None\<rparr>"

text \<open>
  The model of one package \<^verbatim>\<open>acme\<close> whose entry point has one class \<^verbatim>\<open>Widget\<close>
  with the given members.
\<close>

definition acmeModel :: "ApiItem list \<Rightarrow> ApiItem" where
  "acmeModel widgetMembers =
     ApiItem (plainItem Model [] None)
       [ApiItem (plainItem Package ''acme'' None)
          [ApiItem (plainItem EntryPoint [] None)
             [ApiItem (plainItem Class ''Widget'' None) widgetMembers]]]"

section \<open>Properties of the string helpers\<close>

lemma splitOn_not_Nil: "splitOn sep s \<noteq> []"
  by (induction s) (auto split: list.splits)

lemma splitOn_Cons:
  "splitOn sep (c # cs) =
     (if c = sep then [] # splitOn sep cs
      else (c # hd (splitOn sep cs)) # tl (splitOn sep cs))"
  by (cases "splitOn sep cs") (simp_all add: splitOn_not_Nil)

lemma hd_splitOn: "hd (splitOn sep s) = takeWhile (\<lambda>c. c \<noteq> sep) s"
  by (induction s) (simp_all add: splitOn_Cons del: splitOn.simps(2))

lemma tl_splitOn:
  "tl (splitOn sep s) =
     (case dropWhile (\<lambda>c. c \<noteq> sep) s of [] \<Rightarrow> [] | c # r \<Rightarrow> splitOn sep r)"
  by (induction s) (simp_all add: splitOn_Cons del: splitOn.simps(2))

lemma joinWith_Cons: "ys \<noteq> [] \<Longrightarrow> joinWith sep (x # ys) = x @ sep @ joinWith sep ys"
  by (cases ys) simp_all

lemma joinWith_push: "joinWith sep ((c # x) # ys) = c # joinWith sep (x # ys)"
  by (cases ys) simp_all

lemma joinWith_splitOn_char:
  "joinWith [r] (splitOn sep s) = map (\<lambda>c. if c = sep then r else c) s"
proof (induction s)
  case Nil
  show ?case by simp
next
  case (Cons c cs)
  show ?case
  proof (cases "c = sep")
    case True
    then show ?thesis
      using Cons by (simp add: joinWith_Cons splitOn_not_Nil)
  next
    case False
    have "joinWith [r] ((c # hd (splitOn sep cs)) # tl (splitOn sep cs))
            = c # joinWith [r] (hd (splitOn sep cs) # tl (splitOn sep cs))"
      by (rule joinWith_push)
    also have "hd (splitOn sep cs) # tl (splitOn sep cs) = splitOn sep cs"
      by (simp add: splitOn_not_Nil)
    finally show ?thesis
      using False Cons by (simp add: splitOn_Cons del: splitOn.simps(2))
  qed
qed

lemma rest_after_first_dash:
  "joinWith '' '' (tl (splitOn (CHR ''-'') n)) =
     map (\<lambda>c. if c = CHR ''-'' then CHR '' '' else c)
       (drop 1 (dropWhile (\<lambda>c. c \<noteq> CHR ''-'') n))"
proof (cases "dropWhile (\<lambda>c. c \<noteq> CHR ''-'') n")
  case Nil
  show ?thesis by (simp add: tl_splitOn Nil)
next
  case (Cons d r)
  show ?thesis by (simp add: tl_splitOn Cons joinWith_splitOn_char)
qed

section \<open>Properties of the sidebar generator\<close>

text \<open>
  C7. \<open>niceName\<close> looks at the part of the name before its first dash. When that part
  is a number for the language (\<^verbatim>\<open>Number\<close> of it is not NaN), the result is the
  segments after the first one joined by single spaces, which is the rest of the name
  after the first dash with every further dash turned into a space. When that part is
  no number, the result is the name itself. The four names of the specification come
  out as it says.
\<close>

theorem niceName_drops_numeric_prefix:
  "niceName n =
     (if numberIsNaN (takeWhile (\<lambda>c. c \<noteq> CHR ''-'') n) then n
      else joinWith '' '' (tl (splitOn (CHR ''-'') n)))
   \<and> joinWith '' '' (tl (splitOn (CHR ''-'') n)) =
       map (\<lambda>c. if c = CHR ''-'' then CHR '' '' else c)
         (drop 1 (dropWhile (\<lambda>c. c \<noteq> CHR ''-'') n))
   \<and> niceName ''1-Guides'' = ''Guides''
   \<and> niceName ''2-API'' = ''API''
   \<and> niceName ''Guides'' = ''Guides''
   \<and> niceName ''10-My-Section'' = ''My Section''"
proof -
  have general: "niceName n =
     (if numberIsNaN (takeWhile (\<lambda>c. c \<noteq> CHR ''-'') n) then n
      else joinWith '' '' (tl (splitOn (CHR ''-'') n)))"
    by (simp add: niceName_def Let_def hd_splitOn)
  have e1: "niceName ''1-Guides'' = ''Guides''" by code_simp
  have e2: "niceName ''2-API'' = ''API''" by code_simp
  have e3: "niceName ''Guides'' = ''Guides''" by code_simp
  have e4: "niceName ''10-My-Section'' = ''My Section''" by code_simp
  show ?thesis
    using general rest_after_first_dash e1 e2 e3 e4 by blast
qed

lemma replaceSpaces_eq: "replaceSpaces p = percentEncodeSpaces p"
  by (induction p) (simp_all add: percentEncodeSpaces_def)

lemma endsWith_md: "endsWith nm ''.md'' \<longleftrightarrow> 3 \<le> length nm \<and> drop (length nm - 3) nm = ''.md''"
  by (simp add: endsWith_def numeral_3_eq_3)

lemma endsWith_md_long:
  assumes e: "endsWith nm ''.md''" and n: "nm \<noteq> ''.md''"
  shows "3 < length nm"
proof (rule ccontr)
  assume "\<not> 3 < length nm"
  moreover from e have l: "3 \<le> length nm" and d: "drop (length nm - 3) nm = ''.md''"
    unfolding endsWith_md by blast+
  ultimately have "length nm - 3 = 0"
    by arith
  with d have "drop 0 nm = ''.md''"
    by metis
  with n show False
    by (metis drop_0)
qed


lemma basename_plain:
  assumes "CHR ''/'' \<notin> set p" and "p \<noteq> ext"
  shows "basename p ext =
           (if ext \<noteq> [] \<and> length ext < length p \<and> endsWith p ext
            then take (length p - length ext) p else p)"
proof -
  have ns: "\<forall>c \<in> set (rev p). c \<noteq> CHR ''/''"
    unfolding set_rev using assms(1) by blast
  have d: "dropWhile (\<lambda>c. c = CHR ''/'') (rev p) = rev p"
    using ns by (cases "rev p") simp_all
  have t: "takeWhile (\<lambda>c. c \<noteq> CHR ''/'') (rev p) = rev p"
    using assms(1) by (auto simp: takeWhile_eq_all_conv)
  show ?thesis
    unfolding basename_def Let_def d t rev_rev_ident
    using assms(2) by simp
qed

lemma basename_no_slash:
  assumes "CHR ''/'' \<notin> set nm"
  shows "basename nm ''.md'' = stripMd nm"
proof (cases "nm = ''.md''")
  case True
  show ?thesis
    unfolding True by code_simp
next
  case False
  have len: "length ''.md'' = 3"
    by simp
  show ?thesis
  proof (cases "endsWith nm ''.md''")
    case True
    from endsWith_md_long [OF True False] True show ?thesis
      unfolding basename_plain [OF assms False] stripMd_def len by simp
  next
    case no: False
    then show ?thesis
      unfolding basename_plain [OF assms False] stripMd_def len by simp
  qed
qed

lemma in_fileNames:
  "x \<in> set (map name (filter (\<lambda>c. children c = None) cs)) \<longleftrightarrow>
     (\<exists>l \<in> set cs. children l = None \<and> name l = x)"
  by auto

lemma in_dirNames:
  "x \<in> set (map (\<lambda>c. name c @ ''.md'') (filter (\<lambda>c. children c \<noteq> None) cs)) \<longleftrightarrow>
     (\<exists>d \<in> set cs. children d \<noteq> None \<and> name d @ ''.md'' = x)"
  by auto

lemma renderToMd_container:
  "renderToMd (Entry nm pth (Some cs)) linkDir =
     (if nm = [] then []
      else if linkDir
        then ''- ['' @ niceName (basename nm ''.md'') @ '']('' @ percentEncodeSpaces pth @ '')'' @ ''\<newline>''
        else ''- '' @ niceName nm @ ''\<newline>'') @
     indentLines (joinWith ''\<newline>''
       (map (\<lambda>c. renderToMd c (linkedDir cs c)) (filter (\<lambda>c. \<not> foldedAway cs c) cs)))"
proof -
  have f: "filter (\<lambda>c. name c \<notin> set (map name (filter (\<lambda>c. children c = None) cs)) \<or>
                      name c \<notin> set (map (\<lambda>c. name c @ ''.md'') (filter (\<lambda>c. children c \<noteq> None) cs))) cs
           = filter (\<lambda>c. \<not> foldedAway cs c) cs"
    unfolding in_fileNames in_dirNames foldedAway_def by simp
  have l: "(name c @ ''.md'' \<in> set (map (\<lambda>c. name c @ ''.md'') (filter (\<lambda>c. children c \<noteq> None) cs)) \<and>
            name c @ ''.md'' \<in> set (map name (filter (\<lambda>c. children c = None) cs))) = linkedDir cs c" for c
    unfolding in_fileNames in_dirNames linkedDir_def by simp
  show ?thesis
    unfolding renderToMd.simps Let_def f l
    by (simp add: linkLine_def replaceSpaces_eq)
qed


lemma set_niceName: "set (niceName n) \<subseteq> set n \<union> {CHR '' ''}"
proof -
  have "set (drop 1 (dropWhile (\<lambda>c. c \<noteq> CHR ''-'') n)) \<subseteq> set n"
    using set_drop_subset [of 1 "dropWhile (\<lambda>c. c \<noteq> CHR ''-'') n"]
          set_dropWhileD [of _ "\<lambda>c. c \<noteq> CHR ''-''" n]
    by blast
  then have "set (map (\<lambda>c. if c = CHR ''-'' then CHR '' '' else c)
               (drop 1 (dropWhile (\<lambda>c. c \<noteq> CHR ''-'') n))) \<subseteq> set n \<union> {CHR '' ''}"
    by auto
  then have mapped: "set (joinWith '' '' (tl (splitOn (CHR ''-'') n))) \<subseteq> set n \<union> {CHR '' ''}"
    unfolding rest_after_first_dash .
  show ?thesis
  proof (cases "numberIsNaN (hd (splitOn (CHR ''-'') n))")
    case True
    then have "niceName n = n"
      by (simp add: niceName_def)
    then show ?thesis
      by auto
  next
    case False
    then have "niceName n = joinWith '' '' (tl (splitOn (CHR ''-'') n))"
      by (simp add: niceName_def)
    then show ?thesis
      using mapped by simp
  qed
qed

lemma set_stripMd: "set (stripMd nm) \<subseteq> set nm"
  unfolding stripMd_def using set_take_subset [of "length nm - 3" nm] by simp

lemma set_percentEncodeSpaces: "set (percentEncodeSpaces p) \<subseteq> set p \<union> set ''%20''"
  unfolding percentEncodeSpaces_def by (induction p) auto

text \<open>
  C8, as far as it holds. In the generator with folding, a leaf whose name has no
  \<^verbatim>\<open>/\<close> (a directory entry never has one) is rendered as the one line
  \<^verbatim>\<open>- [label](path)\<close>: the label is the name without a final \<^verbatim>\<open>.md\<close>, then
  normalised by \<open>niceName\<close>; the path has each space replaced by \<^verbatim>\<open>%20\<close> and is
  otherwise unchanged. The text has no line break unless the name or the path has one.
  The leaf \<^verbatim>\<open>c.md\<close> at \<^verbatim>\<open>/a b/c.md\<close> gives \<^verbatim>\<open>- [c](/a%20b/c.md)\<close>.
\<close>

theorem renderToMd_leaf_line:
  assumes "CHR ''/'' \<notin> set nm"
  shows "renderToMd (Entry nm pth None) linkDir =
           ''- ['' @ niceName (stripMd nm) @ '']('' @ percentEncodeSpaces pth @ '')''
       \<and> (CHR ''\<newline>'' \<notin> set nm \<union> set pth \<longrightarrow>
            CHR ''\<newline>'' \<notin> set (renderToMd (Entry nm pth None) linkDir))
       \<and> renderToMd (Entry ''c.md'' ''/a b/c.md'' None) linkDir = ''- [c](/a%20b/c.md)''"
proof -
  have line: "renderToMd (Entry nm pth None) linkDir =
           ''- ['' @ niceName (stripMd nm) @ '']('' @ percentEncodeSpaces pth @ '')''"
    by (simp add: linkLine_def basename_no_slash [OF assms] replaceSpaces_eq)
  have one: "CHR ''\<newline>'' \<notin> set (renderToMd (Entry nm pth None) linkDir)"
    if "CHR ''\<newline>'' \<notin> set nm \<union> set pth"
  proof -
    from that set_niceName [of "stripMd nm"] set_stripMd [of nm]
    have "CHR ''\<newline>'' \<notin> set (niceName (stripMd nm))"
      by auto
    moreover from that set_percentEncodeSpaces [of pth]
    have "CHR ''\<newline>'' \<notin> set (percentEncodeSpaces pth)"
      by auto
    ultimately show ?thesis
      unfolding line by simp
  qed
  have ex: "renderToMd (Entry ''c.md'' ''/a b/c.md'' None) linkDir = ''- [c](/a%20b/c.md)''"
    unfolding renderToMd.simps by code_simp
  from line one ex show ?thesis
    by blast
qed

theorem renderToMd_leaf_line_witness:
  "CHR ''/'' \<notin> set ''1-intro.md'' \<and>
   renderToMd (Entry ''1-intro.md'' ''/my docs/1-intro.md'' None) False =
     ''- [intro](/my%20docs/1-intro.md)''"
proof -
  have h: "CHR ''/'' \<notin> set ''1-intro.md''"
    by simp
  have "niceName (stripMd ''1-intro.md'') = ''intro''"
    by code_simp
  moreover have "percentEncodeSpaces ''/my docs/1-intro.md'' = ''/my%20docs/1-intro.md''"
    by code_simp
  ultimately show ?thesis
    using h renderToMd_leaf_line [OF h, of "''/my docs/1-intro.md''" False] by simp
qed

text \<open>
  The plain copy labels a leaf with the part of its name before the first dot and
  applies no normalisation: for \<^verbatim>\<open>1-intro.md\<close> the label is \<^verbatim>\<open>1-intro\<close>, where the
  stripped and normalised name is \<^verbatim>\<open>intro\<close>.
\<close>

theorem renderToMd_index_leaf_counterexample:
  "renderToMd_index (Entry ''1-intro.md'' ''/1-intro.md'' None) = ''- [1-intro](/1-intro.md)''
   \<and> ''- ['' @ niceName (stripMd ''1-intro.md'') @ '']('' @ percentEncodeSpaces ''/1-intro.md'' @ '')''
       = ''- [intro](/1-intro.md)''
   \<and> renderToMd_index (Entry ''1-intro.md'' ''/1-intro.md'' None) \<noteq>
       ''- ['' @ niceName (stripMd ''1-intro.md'') @ '']('' @ percentEncodeSpaces ''/1-intro.md'' @ '')''"
proof -
  have a: "renderToMd_index (Entry ''1-intro.md'' ''/1-intro.md'' None) = ''- [1-intro](/1-intro.md)''"
    by code_simp
  have b: "''- ['' @ niceName (stripMd ''1-intro.md'') @ '']('' @ percentEncodeSpaces ''/1-intro.md'' @ '')''
       = ''- [intro](/1-intro.md)''"
    by code_simp
  show ?thesis
    unfolding a b by simp
qed

text \<open>
  C1, as far as it holds. A container is rendered as its heading line, if it has a name,
  and then the indented renderings of its children, where a child is left out when it
  is folded away and is rendered as a link when it is a linked directory. So when a leaf
  \<^verbatim>\<open>X.md\<close> and a container \<^verbatim>\<open>X\<close> are both among the children, the leaf has no line
  of its own and the container's heading is the link \<^verbatim>\<open>- [label](path)\<close>, where the
  path is the container's own path with spaces encoded (\<^verbatim>\<open>/X\<close>, not \<^verbatim>\<open>/X.md\<close>).
  When no leaf and container of the children are such a pair, no child is left out and
  every container among them gets the plain heading \<^verbatim>\<open>- name\<close>. A container with the
  empty name, as the root, has no heading line.
\<close>

theorem renderToMd_folding:
  "renderToMd (Entry nm pth (Some cs)) linkDir =
     (if nm = [] then []
      else if linkDir
        then ''- ['' @ niceName (basename nm ''.md'') @ '']('' @ percentEncodeSpaces pth @ '')'' @ ''\<newline>''
        else ''- '' @ niceName nm @ ''\<newline>'') @
     indentLines (joinWith ''\<newline>''
       (map (\<lambda>c. renderToMd c (linkedDir cs c)) (filter (\<lambda>c. \<not> foldedAway cs c) cs)))
   \<and> (\<forall>leaf \<in> set cs. \<forall>dir \<in> set cs.
         children leaf = None \<and> children dir \<noteq> None \<and> name dir @ ''.md'' = name leaf \<longrightarrow>
         foldedAway cs leaf \<and> linkedDir cs dir)
   \<and> ((\<forall>leaf \<in> set cs. \<forall>dir \<in> set cs.
          children leaf = None \<and> children dir \<noteq> None \<longrightarrow> name dir @ ''.md'' \<noteq> name leaf) \<longrightarrow>
        (\<forall>c \<in> set cs. \<not> foldedAway cs c \<and> \<not> linkedDir cs c))"
proof -
  have pair: "\<forall>leaf \<in> set cs. \<forall>dir \<in> set cs.
         children leaf = None \<and> children dir \<noteq> None \<and> name dir @ ''.md'' = name leaf \<longrightarrow>
         foldedAway cs leaf \<and> linkedDir cs dir"
    unfolding foldedAway_def linkedDir_def by metis
  have none: "(\<forall>leaf \<in> set cs. \<forall>dir \<in> set cs.
          children leaf = None \<and> children dir \<noteq> None \<longrightarrow> name dir @ ''.md'' \<noteq> name leaf) \<longrightarrow>
        (\<forall>c \<in> set cs. \<not> foldedAway cs c \<and> \<not> linkedDir cs c)"
    unfolding foldedAway_def linkedDir_def by metis
  from renderToMd_container [of nm pth cs linkDir] pair none show ?thesis
    by blast
qed

text \<open>
  The folding example of the specification, through the theorem: the root renders as the
  indented rendering of \<^verbatim>\<open>X\<close> as a link, and nothing for \<^verbatim>\<open>X.md\<close>.
\<close>

theorem renderToMd_folding_witness:
  "renderToMd (Entry [] [] (Some [Entry ''X.md'' ''/X.md'' None,
       Entry ''X'' ''/X'' (Some [Entry ''Y.md'' ''/X/Y.md'' None])])) False =
     indentLines (renderToMd (Entry ''X'' ''/X'' (Some [Entry ''Y.md'' ''/X/Y.md'' None])) True)
   \<and> renderToMd (Entry ''X'' ''/X'' (Some [Entry ''Y.md'' ''/X/Y.md'' None])) True =
       ''- [X](/X)'' @ ''\<newline>'' @ ''  - [Y](/X/Y.md)''"
proof -
  let ?leaf = "Entry ''X.md'' ''/X.md'' None"
  let ?dir = "Entry ''X'' ''/X'' (Some [Entry ''Y.md'' ''/X/Y.md'' None])"
  have fl: "foldedAway [?leaf, ?dir] ?leaf" and fd: "\<not> foldedAway [?leaf, ?dir] ?dir"
    and ld: "linkedDir [?leaf, ?dir] ?dir"
    by (simp_all add: foldedAway_def linkedDir_def)
  have top: "renderToMd (Entry [] [] (Some [?leaf, ?dir])) False = indentLines (renderToMd ?dir True)"
    using renderToMd_folding [of "[]" "[]" "[?leaf, ?dir]" False] fl fd ld
    by simp
  have inner: "renderToMd ?dir True = ''- [X](/X)'' @ ''\<newline>'' @ ''  - [Y](/X/Y.md)''"
    by code_simp
  from top inner show ?thesis
    by blast
qed

text \<open>
  C1 as stated fails on that example: the link of the folded directory points at the
  directory's path \<^verbatim>\<open>/X\<close>, not at the path \<^verbatim>\<open>/X.md\<close> of the file.
\<close>

theorem renderToMd_folding_links_directory_path:
  "renderToMd (Entry [] [] (Some [Entry ''X.md'' ''/X.md'' None,
       Entry ''X'' ''/X'' (Some [Entry ''Y.md'' ''/X/Y.md'' None])])) False =
     ''  - [X](/X)'' @ ''\<newline>'' @ ''    - [Y](/X/Y.md)''
   \<and> renderToMd (Entry [] [] (Some [Entry ''X.md'' ''/X.md'' None,
       Entry ''X'' ''/X'' (Some [Entry ''Y.md'' ''/X/Y.md'' None])])) False \<noteq>
     ''  - [X](/X.md)'' @ ''\<newline>'' @ ''    - [Y](/X/Y.md)''"
proof -
  have v: "renderToMd (Entry [] [] (Some [Entry ''X.md'' ''/X.md'' None,
       Entry ''X'' ''/X'' (Some [Entry ''Y.md'' ''/X/Y.md'' None])])) False =
     ''  - [X](/X)'' @ ''\<newline>'' @ ''    - [Y](/X/Y.md)''"
    by code_simp
  show ?thesis
    unfolding v by simp
qed



lemma descendants_Cons:
  "descendants (Entry x y (Some (c # cs))) = c # descendants c @ descendants (Entry x y (Some cs))"
  by simp

lemma descendants_indep:
  "descendants (Entry x y (Some cs)) = descendants (Entry x' y' (Some cs))"
  by simp

lemma statIsDirectory_True: "statIsDirectory node = Inr True \<Longrightarrow> node \<noteq> FsFile"
  by (cases node) (simp_all add: statIsDirectory_def)

lemma statIsDirectory_False: "statIsDirectory node = Inr False \<Longrightarrow> node = FsFile"
  by (cases node) (simp_all add: statIsDirectory_def)

lemma buildTree_buildChildren_props:
  "\<forall>t. buildTree node nm tPath = Inr t \<longrightarrow>
     (\<exists>ks. t = Entry nm tPath (Some ks) \<and> (ks \<noteq> [] \<longleftrightarrow> hasDocs node) \<and>
        (\<forall>e \<in> set (descendants t). children e \<noteq> Some []) \<and>
        map path (filter isContainer (descendants t)) = docDirs node tPath \<and>
        map path (filter (\<lambda>e. children e = None) (descendants t)) = docFiles node tPath)"
  "\<forall>ks. buildChildren items tPath kids = Inr ks \<longrightarrow>
     (\<exists>new. ks = kids @ new \<and> (new \<noteq> [] \<longleftrightarrow> anyDocs items) \<and>
        (\<forall>e \<in> set (descendants (Entry [] [] (Some new))). children e \<noteq> Some []) \<and>
        map path (filter isContainer (descendants (Entry [] [] (Some new)))) = docDirsIn items tPath \<and>
        map path (filter (\<lambda>e. children e = None) (descendants (Entry [] [] (Some new)))) =
          docFilesIn items tPath)"
proof (induction node nm tPath and items tPath kids rule: buildTree_buildChildren.induct)
  case (1 items nm tPath)
  show ?case
  proof (intro allI impI)
    fix t
    assume b: "buildTree (FsDir items) nm tPath = Inr t"
    then obtain ks where k: "buildChildren items tPath [] = Inr ks" and t: "t = Entry nm tPath (Some ks)"
      by (auto split: sum.splits)
    from 1 k obtain new where n: "ks = [] @ new" "(new \<noteq> []) = anyDocs items"
        "\<forall>e \<in> set (descendants (Entry [] [] (Some new))). children e \<noteq> Some []"
        "map path (filter isContainer (descendants (Entry [] [] (Some new)))) = docDirsIn items tPath"
        "map path (filter (\<lambda>e. children e = None) (descendants (Entry [] [] (Some new)))) =
           docFilesIn items tPath"
      by blast
    from n t show "\<exists>ks. t = Entry nm tPath (Some ks) \<and> (ks \<noteq> [] \<longleftrightarrow> hasDocs (FsDir items)) \<and>
        (\<forall>e \<in> set (descendants t). children e \<noteq> Some []) \<and>
        map path (filter isContainer (descendants t)) = docDirs (FsDir items) tPath \<and>
        map path (filter (\<lambda>e. children e = None) (descendants t)) = docFiles (FsDir items) tPath"
      by simp
  qed
next
  case (2 nm tPath)
  show ?case by simp
next
  case (3 nm tPath)
  show ?case by simp
next
  case (4 nm tPath)
  show ?case by simp
next
  case (5 tPath kids)
  show ?case by simp
next
  case (6 item node rest tPath kids)
  let ?iPath = "tPath @ ''/'' @ item"
  let ?Q = "\<lambda>new its. (new \<noteq> [] \<longleftrightarrow> anyDocs its) \<and>
        (\<forall>e \<in> set (descendants (Entry [] [] (Some new))). children e \<noteq> Some []) \<and>
        map path (filter isContainer (descendants (Entry [] [] (Some new)))) = docDirsIn its tPath \<and>
        map path (filter (\<lambda>e. children e = None) (descendants (Entry [] [] (Some new)))) =
          docFilesIn its tPath"
  show ?case
  proof (intro allI impI)
    fix ks
    assume b: "buildChildren ((item, node) # rest) tPath kids = Inr ks"
    show "\<exists>new. ks = kids @ new \<and> ?Q new ((item, node) # rest)"
    proof (cases "ignores item")
      case True
      with b have "buildChildren rest tPath kids = Inr ks"
        by simp
      with 6(1) [OF True] obtain new where "ks = kids @ new" "?Q new rest"
        by blast
      with True show ?thesis
        by auto
    next
      case ni: False
      show ?thesis
      proof (cases "statIsDirectory node")
        case (Inl e)
        with b ni show ?thesis
          by simp
      next
        case (Inr isDir)
        show ?thesis
        proof (cases isDir)
          case True
          then have isT: "isDir = True"
            by simp
          have nf: "node \<noteq> FsFile"
            using Inr statIsDirectory_True unfolding isT by blast
          show ?thesis
          proof (cases "buildTree node item ?iPath")
            case (Inl e)
            with b ni Inr isT show ?thesis
              by simp
          next
            case sub: (Inr sub)
            from 6(2) [OF ni refl Inr isT] sub obtain sk where
              sk: "sub = Entry item ?iPath (Some sk)" "(sk \<noteq> []) = hasDocs node"
                "\<forall>e \<in> set (descendants sub). children e \<noteq> Some []"
                "map path (filter isContainer (descendants sub)) = docDirs node ?iPath"
                "map path (filter (\<lambda>e. children e = None) (descendants sub)) = docFiles node ?iPath"
              by blast
            show ?thesis
            proof (cases "sk = []")
              case True
              then have c: "\<not> (children sub \<noteq> None \<and> 0 < length (the (children sub)))"
                using sk(1) by simp
              have "buildChildren rest tPath kids = Inr ks"
                using b ni Inr isT sub True unfolding sk(1) by simp
              from this 6(5) [OF ni refl Inr isT sub c] obtain new where
                "ks = kids @ new" "?Q new rest"
                by blast
              moreover have "\<not> hasDocs node"
                using True sk(2) by simp
              moreover have "docFiles node ?iPath = []"
                using True sk(1,5) by simp
              ultimately show ?thesis
                using ni nf by auto
            next
              case False
              then have c: "children sub \<noteq> None \<and> 0 < length (the (children sub))"
                using sk(1) by simp
              have "buildChildren rest tPath (kids @ [sub]) = Inr ks"
                using b ni Inr isT sub False unfolding sk(1) by simp
              from this 6(4) [OF ni refl Inr isT sub c sub] obtain new where
                n: "ks = (kids @ [sub]) @ new" "?Q new rest"
                by blast
              have hd: "hasDocs node"
                using False sk(2) by simp
              have cs: "children sub \<noteq> Some []" "isContainer sub" "path sub = ?iPath"
                  "children sub \<noteq> None"
                using False sk(1) by (simp_all add: isContainer_def)
              have "?Q (sub # new) ((item, node) # rest)"
                using n(2) sk(3,4,5) cs ni nf hd
                by (auto simp del: descendants.simps simp add: descendants_Cons)
              with n(1) show ?thesis
                by (intro exI [of _ "sub # new"]) simp
            qed
          qed
        next
          case False
          then have isF: "isDir = False"
            by simp
          have nf: "node = FsFile"
            using Inr statIsDirectory_False unfolding isF by blast
          show ?thesis
          proof (cases "isDoc item")
            case True
            with b ni Inr isF
            have "buildChildren rest tPath (kids @ [Entry item ?iPath None]) = Inr ks"
              by simp
            with 6(6) [OF ni refl Inr isF True] obtain new where
              n: "ks = (kids @ [Entry item ?iPath None]) @ new" "?Q new rest"
              by blast
            have "?Q (Entry item ?iPath None # new) ((item, node) # rest)"
              using n(2) ni nf True by (simp add: isContainer_def)
            with n(1) show ?thesis
              by (intro exI [of _ "Entry item ?iPath None # new"]) simp
          next
            case nd: False
            with b ni Inr isF have "buildChildren rest tPath kids = Inr ks"
              by simp
            with 6(7) [OF ni refl Inr isF nd] obtain new where
              "ks = kids @ new" "?Q new rest"
              by blast
            then show ?thesis
              using ni nf nd by auto
          qed
        qed
      qed
    qed
  qed
qed


lemma buildTree_buildChildren_total:
  "readable node \<and> node \<noteq> FsFile \<longrightarrow> (\<exists>t. buildTree node nm tPath = Inr t)"
  "readableIn items \<longrightarrow> (\<exists>ks. buildChildren items tPath kids = Inr ks)"
proof (induction node nm tPath and items tPath kids rule: buildTree_buildChildren.induct)
  case (1 items nm tPath)
  then show ?case by auto
next
  case (2 nm tPath)
  show ?case by simp
next
  case (3 nm tPath)
  show ?case by simp
next
  case (4 nm tPath)
  show ?case by simp
next
  case (5 tPath kids)
  show ?case by simp
next
  case (6 item node rest tPath kids)
  let ?iPath = "tPath @ ''/'' @ item"
  show ?case
  proof
    assume r: "readableIn ((item, node) # rest)"
    then have rn: "readable node" and rr: "readableIn rest"
      by simp_all
    show "\<exists>ks. buildChildren ((item, node) # rest) tPath kids = Inr ks"
    proof (cases "ignores item")
      case True
      with 6(1) [OF True] rr show ?thesis
        by simp
    next
      case ni: False
      show ?thesis
      proof (cases "node = FsFile")
        case True
        then have st: "statIsDirectory node = Inr False"
          by (simp add: statIsDirectory_def)
        show ?thesis
        proof (cases "isDoc item")
          case True
          with 6(6) [OF ni refl st refl True] rr ni st show ?thesis
            by simp
        next
          case False
          with 6(7) [OF ni refl st refl False] rr ni st show ?thesis
            by simp
        qed
      next
        case False
        with rn have st: "statIsDirectory node = Inr True"
          by (cases node) (simp_all add: statIsDirectory_def)
        from 6(2) [OF ni refl st refl] rn False obtain sub where
          sub: "buildTree node item ?iPath = Inr sub"
          by blast
        have step: "buildChildren ((item, node) # rest) tPath kids =
            (if children sub \<noteq> None \<and> 0 < length (the (children sub))
             then buildChildren rest tPath (kids @ [sub])
             else buildChildren rest tPath kids)"
          using ni st sub by simp
        show ?thesis
        proof (cases "children sub \<noteq> None \<and> 0 < length (the (children sub))")
          case True
          from 6(4) [OF ni refl st refl sub True sub] rr show ?thesis
            unfolding step if_P [OF True] by blast
        next
          case False
          from 6(5) [OF ni refl st refl sub False] rr show ?thesis
            unfolding step if_not_P [OF False] by blast
        qed
      qed
    qed
  qed
qed

lemma buildTree_index_container:
  "buildTree_index fsroot node nm tPath = Inr t \<Longrightarrow> children t \<noteq> None"
  by (cases node) (auto split: sum.splits)

text \<open>
  The leaves of a tree built with pruning are exactly the files that \<open>isDoc\<close> accepts,
  reached through directories that are not ignored. Every name that ends in \<^verbatim>\<open>.md\<close>
  is accepted by \<open>isDoc\<close>; the converse is what fails.
\<close>

lemma buildTree_leaves:
  "buildTree node nm tPath = Inr t \<Longrightarrow>
     map path (filter (\<lambda>e. children e = None) (descendants t)) = docFiles node tPath"
  using buildTree_buildChildren_props(1) [of node nm tPath] by blast

lemma isDoc_if_md_suffix: "endsWith item ''.md'' \<Longrightarrow> isDoc item"
proof -
  assume e: "endsWith item ''.md''"
  then have l: "3 \<le> length item" and d: "drop (length item - 3) item = ''.md''"
    unfolding endsWith_md by blast+
  have "length item - 2 = 1 + (length item - 3)"
    using l by arith
  then have "drop (length item - 2) item = drop 1 (drop (length item - 3) item)"
    by (simp only: drop_drop)
  then have two: "drop (length item - 2) item = ''md''"
    unfolding d by simp
  have "item ! (length item - 3) = hd (drop (length item - 3) item)"
    using l by (simp add: hd_drop_conv_nth)
  then have "item ! (length item - 3) = CHR ''.''"
    unfolding d by simp
  with l two show ?thesis
    by (simp add: isDoc_def isLineTerminator_def)
qed

text \<open>
  C4, as far as it holds. The builder with pruning returns a tree for every directory
  whose entries can all be listed and inspected. In every tree it returns, no node below
  the root is a container without children, and the containers below the root are
  exactly the directories that have documents and are reached through directories that
  are not ignored (their tree paths, in listing order): a directory with no accepted
  file anywhere in its subtree is absent.
\<close>

theorem buildTree_prunes_empty_containers:
  "(readable (FsDir items) \<longrightarrow> (\<exists>t. buildTree (FsDir items) nm tPath = Inr t)) \<and>
   (\<forall>t. buildTree node nm tPath = Inr t \<longrightarrow>
      (\<forall>e \<in> set (descendants t). children e \<noteq> Some []) \<and>
      map path (filter isContainer (descendants t)) = docDirs node tPath)"
  using buildTree_buildChildren_total(1) [of "FsDir items" nm tPath]
        buildTree_buildChildren_props(1) [of node nm tPath]
  by auto

text \<open>
  The scenario of the specification: \<^verbatim>\<open>2-API\<close> is empty and is pruned.
\<close>

theorem buildTree_prunes_empty_containers_witness:
  "readable (FsDir [(''1-Guides'', FsDir [(''intro.md'', FsFile)]), (''2-API'', FsDir []),
                    (''notes.md'', FsFile)]) \<and>
   buildTree (FsDir [(''1-Guides'', FsDir [(''intro.md'', FsFile)]), (''2-API'', FsDir []),
                     (''notes.md'', FsFile)]) [] [] =
     Inr (Entry [] [] (Some [Entry ''1-Guides'' ''/1-Guides''
                               (Some [Entry ''intro.md'' ''/1-Guides/intro.md'' None]),
                             Entry ''notes.md'' ''/notes.md'' None])) \<and>
   map path (filter isContainer (descendants
     (Entry [] [] (Some [Entry ''1-Guides'' ''/1-Guides''
                               (Some [Entry ''intro.md'' ''/1-Guides/intro.md'' None]),
                             Entry ''notes.md'' ''/notes.md'' None])))) = [''/1-Guides'']"
proof -
  let ?fs = "FsDir [(''1-Guides'', FsDir [(''intro.md'', FsFile)]), (''2-API'', FsDir []),
                    (''notes.md'', FsFile)]"
  let ?t = "Entry [] [] (Some [Entry ''1-Guides'' ''/1-Guides''
                               (Some [Entry ''intro.md'' ''/1-Guides/intro.md'' None]),
                             Entry ''notes.md'' ''/notes.md'' None])"
  have r: "readable ?fs"
    by simp
  have b: "buildTree ?fs [] [] = Inr ?t"
    by code_simp
  have d: "docDirs ?fs [] = [''/1-Guides'']"
    by code_simp
  from buildTree_prunes_empty_containers
         [of "[(''1-Guides'', FsDir [(''intro.md'', FsFile)]), (''2-API'', FsDir []),
               (''notes.md'', FsFile)]" "[]" "[]" ?fs]
       b d
  have "map path (filter isContainer (descendants ?t)) = [''/1-Guides'']"
    by simp
  with r b show ?thesis
    by blast
qed

text \<open>
  C4 as stated fails for the plain copy of the builder, which attaches every directory
  it finds. With the documentation root at the root of the file system (where its
  \<^verbatim>\<open>stat\<close> of the tree path finds the entry), the empty directory \<^verbatim>\<open>2-API\<close> of the
  same scenario becomes a container with no children.
\<close>

theorem buildTree_index_keeps_empty_directory:
  "buildTree_index
     (FsDir [(''1-Guides'', FsDir [(''intro.md'', FsFile)]), (''2-API'', FsDir []),
             (''notes.md'', FsFile)])
     (FsDir [(''1-Guides'', FsDir [(''intro.md'', FsFile)]), (''2-API'', FsDir []),
             (''notes.md'', FsFile)]) [] [] =
     Inr (Entry [] [] (Some [Entry ''1-Guides'' ''/1-Guides''
                               (Some [Entry ''intro.md'' ''/1-Guides/intro.md'' None]),
                             Entry ''2-API'' ''/2-API'' (Some []),
                             Entry ''notes.md'' ''/notes.md'' None]))"
  by code_simp

text \<open>
  C6 at a failing input: a regular file named \<^verbatim>\<open>cmd\<close> does not end in \<^verbatim>\<open>.md\<close>, and it
  becomes a leaf, because the dot of the pattern stands for any character.
\<close>

theorem buildTree_accepts_cmd:
  "buildTree (FsDir [(''cmd'', FsFile)]) [] [] =
     Inr (Entry [] [] (Some [Entry ''cmd'' ''/cmd'' None])) \<and>
   \<not> endsWith ''cmd'' ''.md''"
proof -
  have "buildTree (FsDir [(''cmd'', FsFile)]) [] [] =
     Inr (Entry [] [] (Some [Entry ''cmd'' ''/cmd'' None]))"
    by code_simp
  moreover have "\<not> endsWith ''cmd'' ''.md''"
    by (simp add: endsWith_def)
  ultimately show ?thesis
    by blast
qed

lemma render_empty: "renderToMd (Entry [] tPath (Some [])) False = ''  ''"
  by (simp add: indentLines_def)

lemma render_index_empty: "renderToMd_index (Entry [] tPath (Some [])) = ''  ''"
  by (simp add: indentLines_def)

text \<open>
  C10, as far as it holds. Whatever either copy of the builder returns is a container.
  With pruning, when the directory has no documents, the node returned is the container
  with the given name and path and no children: pruning is not applied to the node the
  builder returns. The root without children is rendered, by either copy, as the line
  of two spaces that indenting the empty text gives, not as the empty text.
\<close>

theorem buildTree_root_is_container:
  "(\<forall>t. buildTree node nm tPath = Inr t \<longrightarrow>
      children t \<noteq> None \<and> (\<not> hasDocs node \<longrightarrow> t = Entry nm tPath (Some []))) \<and>
   (\<forall>t. buildTree_index fsroot node nm tPath = Inr t \<longrightarrow> children t \<noteq> None) \<and>
   renderToMd (Entry [] tPath (Some [])) False = ''  '' \<and>
   renderToMd_index (Entry [] tPath (Some [])) = ''  ''"
  using buildTree_buildChildren_props(1) [of node nm tPath]
        buildTree_index_container [of fsroot node nm tPath]
        render_empty [of tPath] render_index_empty [of tPath]
  by auto

text \<open>
  A root directory that holds an empty directory and a file that is no document.
\<close>

theorem buildTree_root_is_container_witness:
  "buildTree (FsDir [(''2-API'', FsDir []), (''todo.txt'', FsFile)]) [] [] =
     Inr (Entry [] [] (Some [])) \<and>
   \<not> hasDocs (FsDir [(''2-API'', FsDir []), (''todo.txt'', FsFile)]) \<and>
   children (Entry [] [] (Some [])) \<noteq> None"
proof -
  have b: "buildTree (FsDir [(''2-API'', FsDir []), (''todo.txt'', FsFile)]) [] [] =
     Inr (Entry [] [] (Some []))"
    by code_simp
  have h: "\<not> hasDocs (FsDir [(''2-API'', FsDir []), (''todo.txt'', FsFile)])"
    by code_simp
  from buildTree_root_is_container
         [of "FsDir [(''2-API'', FsDir []), (''todo.txt'', FsFile)]" "[]" "[]"] b
  have "children (Entry [] [] (Some [])) \<noteq> None"
    by blast
  with b h show ?thesis
    by blast
qed

text \<open>
  C10 as stated fails on the empty root directory: the rendered text is two spaces.
\<close>

theorem empty_root_renders_two_spaces:
  "buildTree (FsDir []) [] [] = Inr (Entry [] [] (Some [])) \<and>
   renderToMd (Entry [] [] (Some [])) False = ''  '' \<and>
   renderToMd (Entry [] [] (Some [])) False \<noteq> []"
  by (simp add: indentLines_def)

section \<open>Properties of the markdown documenter\<close>

lemma writeParameterTables_append:
  "writeParameterTables output apiItem = output @ writeParameterTables [] apiItem"
  by (simp add: writeParameterTables_def Let_def split: option.splits)

lemma internalKinds_cases:
  "k \<in> set internalKinds \<longleftrightarrow> k = Method \<or> k = MethodSignature \<or> k = Property \<or> k = PropertySignature"
  by (auto simp: internalKinds_def)

lemma writeApiItem_internal:
  assumes "kind apiItem \<in> set internalKinds"
  shows "writeApiItem ancestors (ApiItem apiItem ms) output files =
           Inr (output @ memberDetail apiItem, files)"
proof -
  from assms consider "kind apiItem = Method" | "kind apiItem = MethodSignature"
    | "kind apiItem = Property" | "kind apiItem = PropertySignature"
    unfolding internalKinds_cases by blast
  then show ?thesis
  proof cases
    case 1
    then show ?thesis
      using writeParameterTables_append [of "output @ [DocHeading (displayName apiItem) (Some 3)] @ introNodes apiItem" apiItem]
      by (simp add: headingNode_def memberDetail_def internalKinds_def)
  next
    case 2
    then show ?thesis
      using writeParameterTables_append [of "output @ [DocHeading (displayName apiItem) (Some 3)] @ introNodes apiItem" apiItem]
      by (simp add: headingNode_def memberDetail_def internalKinds_def)
  next
    case 3
    then show ?thesis
      by (simp add: headingNode_def memberDetail_def internalKinds_def)
  next
    case 4
    then show ?thesis
      by (simp add: headingNode_def memberDetail_def internalKinds_def)
  qed
qed

lemma writeApiItemPage_internal:
  assumes "kind (info apiMember) \<in> set internalKinds"
  shows "writeApiItemPage ancestors apiMember files = Inr files"
proof (cases apiMember)
  case (ApiItem i ms)
  with assms have k: "kind i \<in> set internalKinds"
    by simp
  show ?thesis
    unfolding ApiItem writeApiItemPage.simps writeApiItem_internal [OF k]
    using k by simp
qed

lemma writeMemberPages_internal:
  "writeMemberPages internalKinds ancestors ms files = Inr files"
  by (induction ms) (simp_all add: writeApiItemPage_internal)

lemma writeInline_internal:
  assumes "\<forall>m \<in> set items. kind (info m) \<in> set internalKinds"
  shows "writeInline ancestors items out files =
           Inr (out @ concat (map (\<lambda>m. memberDetail (info m)) items), files)"
  using assms
proof (induction items arbitrary: out)
  case Nil
  show ?case by simp
next
  case (Cons m items)
  obtain i ms where m: "m = ApiItem i ms"
    by (cases m)
  with Cons.prems have k: "kind i \<in> set internalKinds"
    by simp
  from Cons.prems have rest: "\<forall>m \<in> set items. kind (info m) \<in> set internalKinds"
    by simp
  show ?case
    unfolding m writeInline.simps writeApiItem_internal [OF k]
    using Cons.IH [OF rest] by simp
qed


lemma filter_member_kinds:
  "\<forall>m \<in> set (filter isEventMember ms). kind (info m) \<in> set internalKinds"
  "\<forall>m \<in> set (filter isPropertyMember ms). kind (info m) \<in> set internalKinds"
  "\<forall>m \<in> set (filter isMethodMember ms). kind (info m) \<in> set internalKinds"
  by (auto simp: isEventMember_def isPropertyMember_def isMethodMember_def internalKinds_def)

lemma writeInterfaceTables_closed:
  "writeInterfaceTables ancestors (ApiItem apiClass ms) out files =
     Inr (out @
          memberSection ''Events'' [''Property'', ''Type'', ''Description'']
            (propertyRow (ancestors @ [apiClass]) (ancestors @ [apiClass]))
            (filter isEventMember ms) @
          memberSection ''Properties'' [''Property'', ''Type'', ''Description'']
            (propertyRow (ancestors @ [apiClass]) (ancestors @ [apiClass]))
            (filter isPropertyMember ms) @
          memberSection ''Methods'' [''Method'', ''Description'']
            (memberRow (ancestors @ [apiClass]) (ancestors @ [apiClass]))
            (filter isMethodMember ms),
          files)"
  unfolding writeInterfaceTables.simps Let_def writeMemberPages_internal
            writeInline_internal [OF filter_member_kinds(1)]
            writeInline_internal [OF filter_member_kinds(2)]
            writeInline_internal [OF filter_member_kinds(3)]
  by (simp add: memberSection_def tableNodes_def)













lemma headingNode_unsupported:
  assumes "kind apiItem \<notin> set supportedKinds"
  shows "headingNode apiItem = Inl (Error (''Unsupported API item kind: '' @ kindText (kind apiItem)))"
  using assms by (cases "kind apiItem") (simp_all add: headingNode_def supportedKinds_def)

lemma writeApiItem_unsupported:
  assumes "kind apiItem \<notin> set supportedKinds"
  shows "writeApiItem ancestors (ApiItem apiItem ms) out files =
           Inl (Error (''Unsupported API item kind: '' @ kindText (kind apiItem)))"
    and "writeApiItemPage ancestors (ApiItem apiItem ms) files =
           Inl (Error (''Unsupported API item kind: '' @ kindText (kind apiItem)))"
  by (simp_all add: headingNode_unsupported [OF assms])

lemma writeMemberPages_skip:
  assumes "kind (info m) \<notin> set kinds"
  shows "writeMemberPages kinds ancestors (pre @ m # post) files =
         writeMemberPages kinds ancestors (pre @ post) files"
  using assms by (induction pre arbitrary: files) (simp_all split: sum.splits)

lemma member_filters_skip:
  assumes "kind (info m) \<notin> set internalKinds"
  shows "filter isEventMember (pre @ m # post) = filter isEventMember (pre @ post)"
    and "filter isPropertyMember (pre @ m # post) = filter isPropertyMember (pre @ post)"
    and "filter isMethodMember (pre @ m # post) = filter isMethodMember (pre @ post)"
  using assms
  by (simp_all add: isEventMember_def isPropertyMember_def isMethodMember_def internalKinds_def)

lemma writeInterfaceTables_skip:
  assumes "kind (info m) \<notin> set internalKinds"
  shows "writeInterfaceTables ancestors (ApiItem apiClass (pre @ m # post)) out files =
         writeInterfaceTables ancestors (ApiItem apiClass (pre @ post)) out files"
  unfolding writeInterfaceTables_closed member_filters_skip [OF assms] ..

lemma containerTables_skip:
  assumes "kind (info m) \<notin> set containerMemberKinds"
  shows "containerTables memberAncestors h (pre @ m # post) =
         containerTables memberAncestors h (pre @ post)"
  using assms by (simp add: containerTables_def containerMemberKinds_def)

lemma writePackageOrNamespaceTables_skip:
  assumes "kind (info m) \<notin> set containerMemberKinds"
  shows "kind c \<noteq> Package \<longrightarrow>
           writePackageOrNamespaceTables ancestors (ApiItem c (pre @ m # post)) out files =
           writePackageOrNamespaceTables ancestors (ApiItem c (pre @ post)) out files"
    and "kind c = Package \<longrightarrow>
           writePackageOrNamespaceTables ancestors
             (ApiItem c (ApiItem entryPoint (pre @ m # post) # others)) out files =
           writePackageOrNamespaceTables ancestors
             (ApiItem c (ApiItem entryPoint (pre @ post) # others)) out files"
  by (simp_all add: writeMemberPages_skip [OF assms] containerTables_skip [OF assms]
                    cong: sum.case_cong)

text \<open>
  C5, as far as it holds. Rendering an item whose kind is outside the supported set
  throws the error that names the kind, from \<^verbatim>\<open>_writeApiItem\<close> and so from
  \<^verbatim>\<open>_writeApiItemPage\<close>. The member loops do not render such an item: a member of a
  class or interface whose kind is not an internal kind, and a member of a namespace or
  of the entry point of a package whose kind has no case in the loop, is passed over
  without an error, and the page and the files are those of the container without it.
\<close>

theorem unsupported_kind_throws_or_is_skipped:
  "(kind apiItem \<notin> set supportedKinds \<longrightarrow>
      writeApiItem ancestors (ApiItem apiItem ms) out files =
        Inl (Error (''Unsupported API item kind: '' @ kindText (kind apiItem))) \<and>
      writeApiItemPage ancestors (ApiItem apiItem ms) files =
        Inl (Error (''Unsupported API item kind: '' @ kindText (kind apiItem)))) \<and>
   (kind (info m) \<notin> set internalKinds \<longrightarrow>
      writeInterfaceTables ancestors (ApiItem c (pre @ m # post)) out files =
      writeInterfaceTables ancestors (ApiItem c (pre @ post)) out files) \<and>
   (kind (info m) \<notin> set containerMemberKinds \<longrightarrow>
      (kind c \<noteq> Package \<longrightarrow>
         writePackageOrNamespaceTables ancestors (ApiItem c (pre @ m # post)) out files =
         writePackageOrNamespaceTables ancestors (ApiItem c (pre @ post)) out files) \<and>
      (kind c = Package \<longrightarrow>
         writePackageOrNamespaceTables ancestors
           (ApiItem c (ApiItem entryPoint (pre @ m # post) # others)) out files =
         writePackageOrNamespaceTables ancestors
           (ApiItem c (ApiItem entryPoint (pre @ post) # others)) out files))"
proof -
  have a: "kind apiItem \<notin> set supportedKinds \<longrightarrow>
      writeApiItem ancestors (ApiItem apiItem ms) out files =
        Inl (Error (''Unsupported API item kind: '' @ kindText (kind apiItem))) \<and>
      writeApiItemPage ancestors (ApiItem apiItem ms) files =
        Inl (Error (''Unsupported API item kind: '' @ kindText (kind apiItem)))"
    using writeApiItem_unsupported by blast
  have b: "kind (info m) \<notin> set internalKinds \<longrightarrow>
      writeInterfaceTables ancestors (ApiItem c (pre @ m # post)) out files =
      writeInterfaceTables ancestors (ApiItem c (pre @ post)) out files"
    using writeInterfaceTables_skip by blast
  have c: "kind (info m) \<notin> set containerMemberKinds \<longrightarrow>
      (kind c \<noteq> Package \<longrightarrow>
         writePackageOrNamespaceTables ancestors (ApiItem c (pre @ m # post)) out files =
         writePackageOrNamespaceTables ancestors (ApiItem c (pre @ post)) out files) \<and>
      (kind c = Package \<longrightarrow>
         writePackageOrNamespaceTables ancestors
           (ApiItem c (ApiItem entryPoint (pre @ m # post) # others)) out files =
         writePackageOrNamespaceTables ancestors
           (ApiItem c (ApiItem entryPoint (pre @ post) # others)) out files)"
    using writePackageOrNamespaceTables_skip by blast
  from a b c show ?thesis
    by blast
qed

text \<open>
  A constructor: rendering its page throws, and as a member of a class it is passed over.
\<close>

theorem unsupported_kind_throws_or_is_skipped_witness:
  "kind (plainItem (OtherKind ''Constructor'') ''(constructor)'' (Some 0)) \<notin> set supportedKinds \<and>
   kind (plainItem (OtherKind ''Constructor'') ''(constructor)'' (Some 0)) \<notin> set internalKinds \<and>
   writeApiItemPage [] (ApiItem (plainItem (OtherKind ''Constructor'') ''(constructor)'' (Some 0)) []) [] =
     Inl (Error ''Unsupported API item kind: Constructor'') \<and>
   writeInterfaceTables [] (ApiItem (plainItem Class ''Widget'' None)
       [ApiItem (plainItem (OtherKind ''Constructor'') ''(constructor)'' (Some 0)) []]) [] [] =
   writeInterfaceTables [] (ApiItem (plainItem Class ''Widget'' None) []) [] []"
proof -
  let ?k = "plainItem (OtherKind ''Constructor'') ''(constructor)'' (Some 0)"
  have u: "kind ?k \<notin> set supportedKinds"
    by (simp add: plainItem_def supportedKinds_def)
  have i: "kind (info (ApiItem ?k [])) \<notin> set internalKinds"
    by (simp add: plainItem_def internalKinds_def)
  have t: "''Unsupported API item kind: '' @ kindText (kind ?k) = ''Unsupported API item kind: Constructor''"
    by (simp add: plainItem_def)
  from unsupported_kind_throws_or_is_skipped
         [of ?k "[]" "[]" out "[]" "ApiItem ?k []" "plainItem Class ''Widget'' None" "[]" "[]"] u
  have page: "writeApiItemPage [] (ApiItem ?k []) [] =
     Inl (Error (''Unsupported API item kind: '' @ kindText (kind ?k)))"
    by blast
  from unsupported_kind_throws_or_is_skipped
         [of ?k "[]" "[]" "[]" "[]" "ApiItem ?k []" "plainItem Class ''Widget'' None" "[]" "[]"] i
  have skip: "writeInterfaceTables [] (ApiItem (plainItem Class ''Widget'' None) ([] @ ApiItem ?k [] # [])) [] [] =
     writeInterfaceTables [] (ApiItem (plainItem Class ''Widget'' None) ([] @ [])) [] []"
    by blast
  have i': "kind ?k \<notin> set internalKinds"
    by (simp add: plainItem_def internalKinds_def)
  from skip have skip': "writeInterfaceTables [] (ApiItem (plainItem Class ''Widget'' None) [ApiItem ?k []]) [] [] =
     writeInterfaceTables [] (ApiItem (plainItem Class ''Widget'' None) []) [] []"
    by (simp only: append_Nil)
  from u i' page [unfolded t] skip' show ?thesis
    by blast
qed

text \<open>
  C5 as stated fails on a class with a constructor: the run succeeds, and what it writes
  is what it writes for the class without the constructor.
\<close>

theorem constructor_member_is_skipped_silently:
  "generateFiles (acmeModel [ApiItem (plainItem (OtherKind ''Constructor'') ''(constructor)'' (Some 0)) [],
                             ApiItem (plainItem Method ''render'' (Some 0)) []]) =
   generateFiles (acmeModel [ApiItem (plainItem Method ''render'' (Some 0)) []]) \<and>
   map_sum id (map fst)
     (generateFiles (acmeModel [ApiItem (plainItem (OtherKind ''Constructor'') ''(constructor)'' (Some 0)) [],
                                ApiItem (plainItem Method ''render'' (Some 0)) []])) =
     Inr [''acme/Widget.md'', ''acme.md'']"
proof -
  have a: "generateFiles (acmeModel [ApiItem (plainItem (OtherKind ''Constructor'') ''(constructor)'' (Some 0)) [],
                             ApiItem (plainItem Method ''render'' (Some 0)) []]) =
   generateFiles (acmeModel [ApiItem (plainItem Method ''render'' (Some 0)) []])"
    by code_simp
  have b: "map_sum id (map fst)
     (generateFiles (acmeModel [ApiItem (plainItem (OtherKind ''Constructor'') ''(constructor)'' (Some 0)) [],
                                ApiItem (plainItem Method ''render'' (Some 0)) []])) =
     Inr [''acme/Widget.md'', ''acme.md'']"
    by code_simp
  from a b show ?thesis
    by blast
qed







end
